theory Spec2Isabelle
  imports Complex_Main "HOL-Library.Multiset"
begin

section \<open>JavaScript numbers\<close>

text \<open>
  The engine computes with JavaScript numbers. They are modelled as the real numbers
  extended by the two infinities and \<open>NaN\<close>, with the arithmetic and the comparisons of
  the language on those special values written out. Rounding is not modelled (every
  finite operation is exact), and neither is the sign of zero: a zero divisor counts
  as \<open>+0\<close>.
\<close>

datatype jsnum = NaN | NInf | Fin real | PInf

fun jneg :: "jsnum \<Rightarrow> jsnum" where
  "jneg (Fin a) = Fin (- a)"
| "jneg NaN = NaN"
| "jneg PInf = NInf"
| "jneg NInf = PInf"

fun jadd :: "jsnum \<Rightarrow> jsnum \<Rightarrow> jsnum" where
  "jadd (Fin a) (Fin b) = Fin (a + b)"
| "jadd NaN _ = NaN"
| "jadd _ NaN = NaN"
| "jadd PInf NInf = NaN"
| "jadd NInf PInf = NaN"
| "jadd PInf _ = PInf"
| "jadd _ PInf = PInf"
| "jadd NInf _ = NInf"
| "jadd _ NInf = NInf"

definition jsub :: "jsnum \<Rightarrow> jsnum \<Rightarrow> jsnum" where
  "jsub a b = jadd a (jneg b)"

fun jmul :: "jsnum \<Rightarrow> jsnum \<Rightarrow> jsnum" where
  "jmul (Fin a) (Fin b) = Fin (a * b)"
| "jmul NaN _ = NaN"
| "jmul _ NaN = NaN"
| "jmul PInf (Fin b) = (if b = 0 then NaN else if 0 < b then PInf else NInf)"
| "jmul NInf (Fin b) = (if b = 0 then NaN else if 0 < b then NInf else PInf)"
| "jmul (Fin a) PInf = (if a = 0 then NaN else if 0 < a then PInf else NInf)"
| "jmul (Fin a) NInf = (if a = 0 then NaN else if 0 < a then NInf else PInf)"
| "jmul PInf PInf = PInf"
| "jmul NInf NInf = PInf"
| "jmul PInf NInf = NInf"
| "jmul NInf PInf = NInf"

fun jdiv :: "jsnum \<Rightarrow> jsnum \<Rightarrow> jsnum" where
  "jdiv (Fin a) (Fin b) =
     (if b = 0 then (if a = 0 then NaN else if 0 < a then PInf else NInf)
      else Fin (a / b))"
| "jdiv NaN _ = NaN"
| "jdiv _ NaN = NaN"
| "jdiv (Fin a) PInf = Fin 0"
| "jdiv (Fin a) NInf = Fin 0"
| "jdiv PInf (Fin b) = (if 0 \<le> b then PInf else NInf)"
| "jdiv NInf (Fin b) = (if 0 \<le> b then NInf else PInf)"
| "jdiv PInf PInf = NaN"
| "jdiv PInf NInf = NaN"
| "jdiv NInf PInf = NaN"
| "jdiv NInf NInf = NaN"

text \<open>\<open>a < b\<close> and \<open>a <= b\<close>: false as soon as one side is \<open>NaN\<close>.\<close>

fun jlt :: "jsnum \<Rightarrow> jsnum \<Rightarrow> bool" where
  "jlt (Fin a) (Fin b) = (a < b)"
| "jlt NaN _ = False"
| "jlt _ NaN = False"
| "jlt _ NInf = False"
| "jlt PInf _ = False"
| "jlt NInf _ = True"
| "jlt _ PInf = True"

fun jle :: "jsnum \<Rightarrow> jsnum \<Rightarrow> bool" where
  "jle (Fin a) (Fin b) = (a \<le> b)"
| "jle NaN _ = False"
| "jle _ NaN = False"
| "jle NInf _ = True"
| "jle _ PInf = True"
| "jle PInf _ = False"
| "jle _ NInf = False"

text \<open>\<open>a >= b\<close> is \<open>b <= a\<close>.\<close>

definition jge :: "jsnum \<Rightarrow> jsnum \<Rightarrow> bool" where
  "jge a b = jle b a"

text \<open>Truthiness of a number: \<open>0\<close> and \<open>NaN\<close> are falsy.\<close>

fun truthy :: "jsnum \<Rightarrow> bool" where
  "truthy (Fin a) = (a \<noteq> 0)"
| "truthy NaN = False"
| "truthy PInf = True"
| "truthy NInf = True"

text \<open>
  A value that may be \<open>null\<close> (or an absent field) is a \<open>jsnum option\<close>. Such a value
  is falsy; in arithmetic and comparisons \<open>null\<close> converts to \<open>0\<close>.
\<close>

fun truthy_opt :: "jsnum option \<Rightarrow> bool" where
  "truthy_opt None = False"
| "truthy_opt (Some v) = truthy v"

fun toNumber :: "jsnum option \<Rightarrow> jsnum" where
  "toNumber None = Fin 0"
| "toNumber (Some v) = v"

section \<open>Data model\<close>

datatype market = BTC | ETH | SOL

datatype direction = LONG | SHORT

datatype risk_mode = SAFE | BALANCED | DEGENERATE

text \<open>The \<open>riskMode\<close> label stored in a position: \<open>'CUSTOM'\<close> or the selected mode.\<close>

datatype risk_label = CUSTOM | Mode risk_mode

datatype order_type = MARKET | LIMIT

text \<open>
  A position object. \<open>pos_id\<close> and \<open>pos_size\<close> are the fields \<open>id\<close> and \<open>size\<close>;
  \<open>pos_direction\<close> and \<open>pos_riskMode\<close> are \<open>direction\<close> and \<open>riskMode\<close>. The field
  \<open>riskAmount\<close> is absent (\<open>None\<close>) in positions created by \<open>useTradingEngine\<close>.
  The three flags are the properties \<open>closedByTP\<close>, \<open>closedBySL\<close> and \<open>liquidated\<close>
  that the per-tick pass adds to a position it closes; absent reads as false.
\<close>

record position =
  pos_id :: nat
  market :: market
  entryPrice :: jsnum
  pos_direction :: direction
  pos_size :: jsnum
  riskAmount :: "jsnum option"
  pos_riskMode :: risk_label
  leverage :: jsnum
  initialMargin :: jsnum
  maintenanceMargin :: jsnum
  marginUsed :: jsnum
  liquidationPrice :: jsnum
  unrealizedPnL :: jsnum
  openedAt :: string
  takeProfit :: "jsnum option"
  stopLoss :: "jsnum option"
  closedByTP :: bool
  closedBySL :: bool
  liquidated :: bool

text \<open>
  The advanced settings hold the raw text of the input boxes; the empty string is falsy.
\<close>

record advanced_settings =
  orderType :: order_type
  limitPrice :: string
  customLeverage :: string
  takeProfitText :: string
  stopLossText :: string

text \<open>
  The state of the hook: the ledger (\<open>balance\<close>), the open set (\<open>positions\<close>) and the
  selections of the order form.
\<close>

record app_state =
  balance :: jsnum
  selectedMarket :: market
  positions :: "position list"
  direction :: direction
  positionSize :: jsnum
  riskMode :: risk_mode
  showAdvanced :: bool
  advancedSettings :: advanced_settings

type_synonym prices = "market \<Rightarrow> jsnum option"

fun leverageMap :: "risk_mode \<Rightarrow> jsnum" where
  "leverageMap SAFE = Fin 2"
| "leverageMap BALANCED = Fin 5"
| "leverageMap DEGENERATE = Fin 10"

section \<open>useAppState, margin-reserved settlement\<close>

subsection \<open>Per-tick revaluation\<close>

text \<open>\<open>const pnl = (priceDiff / pos.entryPrice) * pos.size * multiplier\<close>\<close>

definition tick_pnl :: "prices \<Rightarrow> position \<Rightarrow> jsnum" where
  "tick_pnl prices pos =
     (let currentPrice = toNumber (prices (market pos));
          priceDiff = jsub currentPrice (entryPrice pos);
          multiplier = (if pos_direction pos = LONG then Fin 1 else Fin (- 1))
      in jmul (jmul (jdiv priceDiff (entryPrice pos)) (pos_size pos)) multiplier)"

text \<open>
  The take-profit check, \<open>if (pos.takeProfit) { const tpHit = ...; if (tpHit) ... }\<close>,
  and the stop-loss check, written the same way.
\<close>

definition tpFires :: "prices \<Rightarrow> position \<Rightarrow> bool" where
  "tpFires prices pos =
     (let currentPrice = toNumber (prices (market pos))
      in truthy_opt (takeProfit pos) \<and>
         (if pos_direction pos = LONG
          then jge currentPrice (toNumber (takeProfit pos))
          else jle currentPrice (toNumber (takeProfit pos))))"

definition slFires :: "prices \<Rightarrow> position \<Rightarrow> bool" where
  "slFires prices pos =
     (let currentPrice = toNumber (prices (market pos))
      in truthy_opt (stopLoss pos) \<and>
         (if pos_direction pos = LONG
          then jle currentPrice (toNumber (stopLoss pos))
          else jge currentPrice (toNumber (stopLoss pos))))"

text \<open>\<open>const riskAmount = pos.riskAmount || pos.initialMargin\<close>\<close>

definition riskOf :: "position \<Rightarrow> jsnum" where
  "riskOf pos =
     (if truthy_opt (riskAmount pos) then toNumber (riskAmount pos) else initialMargin pos)"

text \<open>
  The callback of \<open>prevPositions.map\<close>. The result is the mapped position together
  with a flag telling whether the callback pushed it to \<open>closedPositions\<close>.
\<close>

definition revalue :: "prices \<Rightarrow> position \<Rightarrow> bool \<times> position" where
  "revalue prices pos =
     (let pnl = tick_pnl prices pos in
      if tpFires prices pos
        then (True, pos\<lparr>unrealizedPnL := pnl, closedByTP := True\<rparr>)
      else if slFires prices pos
        then (True, pos\<lparr>unrealizedPnL := pnl, closedBySL := True\<rparr>)
      else if jle pnl (jneg (riskOf pos))
        then (True, pos\<lparr>unrealizedPnL := jneg (riskOf pos), liquidated := True\<rparr>)
      else (False, pos\<lparr>unrealizedPnL := pnl\<rparr>))"

text \<open>\<open>closedPositions.reduce((sum, p) => sum + p.initialMargin + p.unrealizedPnL, 0)\<close>\<close>

definition totalReturn :: "position list \<Rightarrow> jsnum" where
  "totalReturn closedPositions =
     foldl (\<lambda>sum p. jadd (jadd sum (initialMargin p)) (unrealizedPnL p)) (Fin 0) closedPositions"

definition still_open :: "position \<Rightarrow> bool" where
  "still_open pos = (\<not> liquidated pos \<and> \<not> closedByTP pos \<and> \<not> closedBySL pos)"

text \<open>The effect that runs on every new price snapshot.\<close>

definition updatePositions :: "prices \<Rightarrow> app_state \<Rightarrow> app_state" where
  "updatePositions prices st =
     (if positions st \<noteq> [] \<and> truthy_opt (prices BTC) then
        let results = map (revalue prices) (positions st);
            updatedPositions = map snd results;
            closedPositions = map snd (filter fst results)
        in st\<lparr>balance := (if closedPositions \<noteq> []
                            then jadd (balance st) (totalReturn closedPositions)
                            else balance st),
               positions := filter still_open updatedPositions\<rparr>
      else st)"

subsection \<open>Opening a position\<close>

text \<open>
  The two early returns of \<open>openPosition\<close>. Both happen before any state setter is
  called, so the caller's state stays as it was.
\<close>

datatype open_error = NoPriceAvailable | InsufficientBalance

text \<open>
  \<open>parseFloat\<close> is a parameter \<open>pf\<close> of the model; \<open>Date.now()\<close> and
  \<open>new Date().toLocaleTimeString()\<close> are the parameters \<open>now\<close> and \<open>nowText\<close>.
\<close>

definition resolveLeverage :: "(string \<Rightarrow> jsnum) \<Rightarrow> app_state \<Rightarrow> jsnum" where
  "resolveLeverage pf st =
     (if showAdvanced st \<and> customLeverage (advancedSettings st) \<noteq> []
      then pf (customLeverage (advancedSettings st))
      else leverageMap (riskMode st))"

text \<open>\<open>advancedSettings.takeProfit ? parseFloat(advancedSettings.takeProfit) : null\<close>\<close>

definition parseTrigger :: "(string \<Rightarrow> jsnum) \<Rightarrow> string \<Rightarrow> jsnum option" where
  "parseTrigger pf text = (if text \<noteq> [] then Some (pf text) else None)"

text \<open>
  The object literal \<open>newPosition\<close>. The limit branch and the market branch of the
  source build the same literal; they differ in the entry price only.
\<close>

definition newPosition ::
  "(string \<Rightarrow> jsnum) \<Rightarrow> nat \<Rightarrow> string \<Rightarrow> app_state \<Rightarrow> jsnum \<Rightarrow> jsnum \<Rightarrow> position" where
  "newPosition pf now nowText st entry lev =
     (let risk = positionSize st;
          notionalSize = jmul risk lev;
          margin = risk;
          liquidationPrice' = (if direction st = LONG
                               then jmul entry (jsub (Fin 1) (jdiv (Fin 1) lev))
                               else jmul entry (jadd (Fin 1) (jdiv (Fin 1) lev)))
      in \<lparr>pos_id = now,
          market = selectedMarket st,
          entryPrice = entry,
          pos_direction = direction st,
          pos_size = notionalSize,
          riskAmount = Some risk,
          pos_riskMode = (if showAdvanced st then CUSTOM else Mode (riskMode st)),
          leverage = lev,
          initialMargin = margin,
          maintenanceMargin = Fin 0,
          marginUsed = margin,
          liquidationPrice = liquidationPrice',
          unrealizedPnL = Fin 0,
          openedAt = nowText,
          takeProfit = parseTrigger pf (takeProfitText (advancedSettings st)),
          stopLoss = parseTrigger pf (stopLossText (advancedSettings st)),
          closedByTP = False,
          closedBySL = False,
          liquidated = False\<rparr>)"

text \<open>The entry price: the parsed limit price of a limit order, else the current price.\<close>

definition entryOf :: "(string \<Rightarrow> jsnum) \<Rightarrow> prices \<Rightarrow> app_state \<Rightarrow> jsnum" where
  "entryOf pf prices st =
     (if orderType (advancedSettings st) = LIMIT \<and> limitPrice (advancedSettings st) \<noteq> []
      then pf (limitPrice (advancedSettings st))
      else toNumber (prices (selectedMarket st)))"

definition openPosition ::
  "(string \<Rightarrow> jsnum) \<Rightarrow> nat \<Rightarrow> string \<Rightarrow> prices \<Rightarrow> app_state \<Rightarrow> open_error + app_state" where
  "openPosition pf now nowText prices st =
     (let currentPrice = prices (selectedMarket st) in
      if \<not> truthy_opt currentPrice then Inl NoPriceAvailable
      else
        let lev = resolveLeverage pf st;
            initialMargin' = jdiv (positionSize st) lev
        in if jlt (balance st) initialMargin' then Inl InsufficientBalance
           else
             let margin = positionSize st;
                 p = newPosition pf now nowText st (entryOf pf prices st) lev
             in Inr (st\<lparr>balance := jsub (balance st) margin,
                        positions := positions st @ [p]\<rparr>))"

subsection \<open>Closing\<close>

definition closePosition :: "nat \<Rightarrow> app_state \<Rightarrow> app_state" where
  "closePosition positionId st =
     (case find (\<lambda>p. pos_id p = positionId) (positions st) of
        None \<Rightarrow> st
      | Some p \<Rightarrow>
          st\<lparr>balance := jadd (jadd (balance st) (initialMargin p)) (unrealizedPnL p),
             positions := filter (\<lambda>p. pos_id p \<noteq> positionId) (positions st)\<rparr>)"


section \<open>useAppState, mark-to-close settlement\<close>

text \<open>
  The second version of the hook never deducts margin. Its per-tick callback is the same
  text as the first one's (\<open>revalue\<close>); the settlement, opening and closing differ.
\<close>

text \<open>\<open>closedPositions.reduce((sum, p) => sum + p.unrealizedPnL, 0)\<close>\<close>

definition totalReturn_mtc :: "position list \<Rightarrow> jsnum" where
  "totalReturn_mtc closedPositions =
     foldl (\<lambda>sum p. jadd sum (unrealizedPnL p)) (Fin 0) closedPositions"

definition updatePositions_mtc :: "prices \<Rightarrow> app_state \<Rightarrow> app_state" where
  "updatePositions_mtc prices st =
     (if positions st \<noteq> [] \<and> truthy_opt (prices BTC) then
        let results = map (revalue prices) (positions st);
            updatedPositions = map snd results;
            closedPositions = map snd (filter fst results)
        in st\<lparr>balance := (if closedPositions \<noteq> []
                            then jadd (balance st) (totalReturn_mtc closedPositions)
                            else balance st),
               positions := filter still_open updatedPositions\<rparr>
      else st)"

definition resolveLeverage_mtc :: "(string \<Rightarrow> jsnum) \<Rightarrow> app_state \<Rightarrow> jsnum" where
  "resolveLeverage_mtc pf st =
     (let customLev = (if showAdvanced st \<and> customLeverage (advancedSettings st) \<noteq> []
                       then Some (pf (customLeverage (advancedSettings st)))
                       else None)
      in if truthy_opt customLev \<and> jlt (Fin 0) (toNumber customLev)
         then toNumber customLev
         else leverageMap (riskMode st))"

definition openPosition_mtc ::
  "(string \<Rightarrow> jsnum) \<Rightarrow> nat \<Rightarrow> string \<Rightarrow> prices \<Rightarrow> app_state \<Rightarrow> open_error + app_state" where
  "openPosition_mtc pf now nowText prices st =
     (let currentPrice = prices (selectedMarket st) in
      if \<not> truthy_opt currentPrice then Inl NoPriceAvailable
      else
        let lev = resolveLeverage_mtc pf st;
            initialMargin' = jdiv (positionSize st) lev
        in if jlt (balance st) initialMargin' then Inl InsufficientBalance
           else
             let p = newPosition pf now nowText st (entryOf pf prices st) lev
             in Inr (st\<lparr>positions := positions st @ [p]\<rparr>))"

text \<open>
  In this version the log line at the end of \<open>closePosition\<close> and of
  \<open>closeAllPositions\<close> reads a variable that is not declared (\<open>margin\<close>,
  \<open>totalMargin\<close>), so the call ends with a \<open>ReferenceError\<close>, after both state
  setters have been called. The result is the exception, if any, and the state.
\<close>

datatype js_exception = ReferenceError


definition closeAllPositions_mtc :: "app_state \<Rightarrow> js_exception option \<times> app_state" where
  "closeAllPositions_mtc st =
     (let totalPnL = foldl (\<lambda>sum pos. jadd sum (unrealizedPnL pos)) (Fin 0) (positions st)
      in (Some ReferenceError,
          st\<lparr>balance := jadd (balance st) totalPnL, positions := []\<rparr>))"

section \<open>useTradingEngine\<close>

text \<open>
  The hook \<open>useTradingEngine\<close> charges a trading fee, reserves \<open>positionSize / leverage\<close>
  as margin and keeps half of it as maintenance margin. Its \<open>openPosition\<close> takes the
  selections of the order form as arguments; here they are the form fields of the state.
\<close>

definition TRADING_FEE_RATE :: jsnum where
  "TRADING_FEE_RATE = Fin (4 / 10000)"

definition newPosition_te ::
  "(string \<Rightarrow> jsnum) \<Rightarrow> nat \<Rightarrow> string \<Rightarrow> app_state \<Rightarrow> jsnum \<Rightarrow> jsnum \<Rightarrow> position" where
  "newPosition_te pf now nowText st entry lev =
     (let initialMargin' = jdiv (positionSize st) lev;
          maintenanceMargin' = jmul initialMargin' (Fin (1 / 2));
          marginUsed' = initialMargin';
          liquidationDistance = jdiv (Fin (1 / 2)) lev;
          liquidationPrice' = (if direction st = LONG
                               then jmul entry (jsub (Fin 1) liquidationDistance)
                               else jmul entry (jadd (Fin 1) liquidationDistance))
      in \<lparr>pos_id = now,
          market = selectedMarket st,
          entryPrice = entry,
          pos_direction = direction st,
          pos_size = positionSize st,
          riskAmount = None,
          pos_riskMode = (if showAdvanced st then CUSTOM else Mode (riskMode st)),
          leverage = lev,
          initialMargin = initialMargin',
          maintenanceMargin = maintenanceMargin',
          marginUsed = marginUsed',
          liquidationPrice = liquidationPrice',
          unrealizedPnL = Fin 0,
          openedAt = nowText,
          takeProfit = parseTrigger pf (takeProfitText (advancedSettings st)),
          stopLoss = parseTrigger pf (stopLossText (advancedSettings st)),
          closedByTP = False,
          closedBySL = False,
          liquidated = False\<rparr>)"

definition openPosition_te ::
  "(string \<Rightarrow> jsnum) \<Rightarrow> nat \<Rightarrow> string \<Rightarrow> prices \<Rightarrow> app_state \<Rightarrow> open_error + app_state" where
  "openPosition_te pf now nowText prices st =
     (let currentPrice = prices (selectedMarket st) in
      if \<not> truthy_opt currentPrice then Inl NoPriceAvailable
      else
        let lev = resolveLeverage pf st;
            initialMargin' = jdiv (positionSize st) lev;
            openFee = jmul (positionSize st) TRADING_FEE_RATE;
            totalCost = jadd initialMargin' openFee
        in if jlt (balance st) totalCost then Inl InsufficientBalance
           else
             let p = newPosition_te pf now nowText st (entryOf pf prices st) lev
             in Inr (st\<lparr>balance := jsub (balance st) totalCost,
                        positions := positions st @ [p]\<rparr>))"

text \<open>\<open>const pnl = (priceDiff / pos.entryPrice) * pos.size * leverage * multiplier\<close>\<close>

definition tick_pnl_te :: "prices \<Rightarrow> position \<Rightarrow> jsnum" where
  "tick_pnl_te prices pos =
     (let currentPrice = toNumber (prices (market pos));
          priceDiff = jsub currentPrice (entryPrice pos);
          multiplier = (if pos_direction pos = LONG then Fin 1 else Fin (- 1))
      in jmul (jmul (jmul (jdiv priceDiff (entryPrice pos)) (pos_size pos)) (leverage pos))
           multiplier)"

definition revalue_te :: "prices \<Rightarrow> position \<Rightarrow> bool \<times> position" where
  "revalue_te prices pos =
     (let pnl = tick_pnl_te prices pos;
          lossThreshold = jsub (initialMargin pos) (maintenanceMargin pos)
      in if tpFires prices pos
           then (True, pos\<lparr>unrealizedPnL := pnl, closedByTP := True\<rparr>)
         else if slFires prices pos
           then (True, pos\<lparr>unrealizedPnL := pnl, closedBySL := True\<rparr>)
         else if jle pnl (jneg lossThreshold)
           then (True, pos\<lparr>unrealizedPnL := jneg (pos_size pos), liquidated := True\<rparr>)
         else (False, pos\<lparr>unrealizedPnL := pnl\<rparr>))"

text \<open>
  The effect of \<open>useTradingEngine\<close> that runs on every new price snapshot. It is the
  effect of \<open>useAppState\<close> with the callback above; the settlement adds
  \<open>p.initialMargin + p.unrealizedPnL\<close> for every closed position.
\<close>

definition updatePositions_te :: "prices \<Rightarrow> app_state \<Rightarrow> app_state" where
  "updatePositions_te prices st =
     (if positions st \<noteq> [] \<and> truthy_opt (prices BTC) then
        let results = map (revalue_te prices) (positions st);
            updatedPositions = map snd results;
            closedPositions = map snd (filter fst results)
        in st\<lparr>balance := (if closedPositions \<noteq> []
                            then jadd (balance st) (totalReturn closedPositions)
                            else balance st),
               positions := filter still_open updatedPositions\<rparr>
      else st)"

section \<open>Sample inputs\<close>

text \<open>
  The inputs of the examples. The prices are the initial fallback prices of the hook, the
  state is its initial state (balance 1000, BTC, LONG, size 50, BALANCED, advanced
  settings off and empty).
\<close>

definition sample_prices :: prices where
  "sample_prices m = (case m of BTC \<Rightarrow> Some (Fin 95000) | ETH \<Rightarrow> Some (Fin 3500) | SOL \<Rightarrow> Some (Fin 140))"

definition sample_settings :: advanced_settings where
  "sample_settings =
     \<lparr>orderType = MARKET, limitPrice = [], customLeverage = [],
      takeProfitText = [], stopLossText = []\<rparr>"

definition sample_state :: app_state where
  "sample_state =
     \<lparr>balance = Fin 1000, selectedMarket = BTC, positions = [], direction = LONG,
      positionSize = Fin 50, riskMode = BALANCED, showAdvanced = False,
      advancedSettings = sample_settings\<rparr>"

text \<open>
  The values of \<open>parseFloat\<close> on the texts that the examples use: \<open>'0'\<close>, \<open>'90000'\<close>
  and \<open>'abc'\<close>, which holds no number.
\<close>

definition parseFloat_sample :: "string \<Rightarrow> jsnum" where
  "parseFloat_sample text =
     (if text = ''0'' then Fin 0
      else if text = ''90000'' then Fin 90000
      else NaN)"

text \<open>
  The position that \<open>openPosition\<close> creates from the sample state at the sample prices
  (entry 95000, risk 50, leverage 5, notional 250, liquidation price 76000), and the
  same position with a take-profit at 70000 and a stop-loss at 90000.
\<close>

definition sample_position :: position where
  "sample_position =
     \<lparr>pos_id = 1, market = BTC, entryPrice = Fin 95000, pos_direction = LONG,
      pos_size = Fin 250, riskAmount = Some (Fin 50), pos_riskMode = Mode BALANCED,
      leverage = Fin 5, initialMargin = Fin 50, maintenanceMargin = Fin 0,
      marginUsed = Fin 50, liquidationPrice = Fin 76000, unrealizedPnL = Fin 0,
      openedAt = ''10:00:00'', takeProfit = None, stopLoss = None,
      closedByTP = False, closedBySL = False, liquidated = False\<rparr>"

definition sample_position_tpsl :: position where
  "sample_position_tpsl =
     sample_position\<lparr>takeProfit := Some (Fin 70000), stopLoss := Some (Fin 90000)\<rparr>"

text \<open>
  The sample state with the advanced settings shown and the text \<open>'90000'\<close> in the
  stop-loss box, the position opened from it, and the state after opening.
\<close>

definition sample_state_sl :: app_state where
  "sample_state_sl =
     sample_state\<lparr>showAdvanced := True,
                  advancedSettings := sample_settings\<lparr>stopLossText := ''90000''\<rparr>\<rparr>"

definition sample_position_sl :: position where
  "sample_position_sl =
     sample_position\<lparr>pos_riskMode := CUSTOM, stopLoss := Some (Fin 90000)\<rparr>"

definition sample_opened_sl :: app_state where
  "sample_opened_sl = sample_state_sl\<lparr>balance := Fin 950, positions := [sample_position_sl]\<rparr>"

text \<open>
  The states after opening from the sample state: margin-reserved, mark-to-close, and by
  \<open>useTradingEngine\<close> (margin 10, fee 0.02, maintenance margin 5, liquidation price
  85500).
\<close>

definition sample_opened :: app_state where
  "sample_opened = sample_state\<lparr>balance := Fin 950, positions := [sample_position]\<rparr>"

definition sample_opened_mtc :: app_state where
  "sample_opened_mtc = sample_state\<lparr>positions := [sample_position]\<rparr>"

definition sample_position_te :: position where
  "sample_position_te =
     \<lparr>pos_id = 1, market = BTC, entryPrice = Fin 95000, pos_direction = LONG,
      pos_size = Fin 50, riskAmount = None, pos_riskMode = Mode BALANCED,
      leverage = Fin 5, initialMargin = Fin 10, maintenanceMargin = Fin 5,
      marginUsed = Fin 10, liquidationPrice = Fin 85500, unrealizedPnL = Fin 0,
      openedAt = ''10:00:00'', takeProfit = None, stopLoss = None,
      closedByTP = False, closedBySL = False, liquidated = False\<rparr>"

definition sample_opened_te :: app_state where
  "sample_opened_te =
     sample_state\<lparr>balance := Fin (49499 / 50), positions := [sample_position_te]\<rparr>"

text \<open>
  The sample state with the text \<open>'0'\<close> in the take-profit box and \<open>'abc'\<close> in the
  stop-loss box, the position opened from it, and the state after opening.
\<close>

definition sample_state_falsy :: app_state where
  "sample_state_falsy =
     sample_state\<lparr>showAdvanced := True,
                  advancedSettings :=
                    sample_settings\<lparr>takeProfitText := ''0'', stopLossText := ''abc''\<rparr>\<rparr>"

definition sample_position_falsy :: position where
  "sample_position_falsy =
     sample_position\<lparr>pos_riskMode := CUSTOM, takeProfit := Some (Fin 0), stopLoss := Some NaN\<rparr>"

definition sample_opened_falsy :: app_state where
  "sample_opened_falsy =
     sample_state_falsy\<lparr>balance := Fin 950, positions := [sample_position_falsy]\<rparr>"




text \<open>A price snapshot with BTC at the given price.\<close>

definition btc_at :: "real \<Rightarrow> prices" where
  "btc_at c m = (case m of BTC \<Rightarrow> Some (Fin c) | ETH \<Rightarrow> Some (Fin 3500) | SOL \<Rightarrow> Some (Fin 140))"

section \<open>Basic facts\<close>

subsection \<open>Arithmetic\<close>

lemma jsub_Fin [simp]: "jsub (Fin a) (Fin b) = Fin (a - b)"
  by (simp add: jsub_def)

lemma jge_Fin [simp]: "jge (Fin a) (Fin b) = (b \<le> a)"
  by (simp add: jge_def)





lemma jadd_zero [simp]: "jadd (Fin 0) a = a" "jadd a (Fin 0) = a"
  by (cases a; simp)+





subsection \<open>The per-tick checks\<close>

text \<open>With finite operands and a nonzero entry price the recomputed PnL is finite.\<close>

lemma tick_pnl_Fin:
  assumes "entryPrice pos = Fin e" and "e \<noteq> 0" and "pos_size pos = Fin n"
      and "toNumber (prices (market pos)) = Fin c"
  shows "tick_pnl prices pos =
           Fin ((c - e) / e * n * (if pos_direction pos = LONG then 1 else - 1))"
  using assms by (simp add: tick_pnl_def)

lemma tick_pnl_te_Fin:
  assumes "entryPrice pos = Fin e" and "e \<noteq> 0" and "pos_size pos = Fin n"
      and "leverage pos = Fin L" and "toNumber (prices (market pos)) = Fin c"
  shows "tick_pnl_te prices pos =
           Fin ((c - e) / e * n * L * (if pos_direction pos = LONG then 1 else - 1))"
  using assms by (simp add: tick_pnl_te_def)

lemma riskOf_Fin: "riskAmount pos = Some (Fin r) \<Longrightarrow> r \<noteq> 0 \<Longrightarrow> riskOf pos = Fin r"
  by (simp add: riskOf_def)

lemma tpFires_Fin:
  assumes "toNumber (prices (market pos)) = Fin c" and "takeProfit pos = Some (Fin tp)"
  shows "tpFires prices pos =
           (tp \<noteq> 0 \<and> (if pos_direction pos = LONG then tp \<le> c else c \<le> tp))"
  using assms by (simp add: tpFires_def)

lemma slFires_Fin:
  assumes "toNumber (prices (market pos)) = Fin c" and "stopLoss pos = Some (Fin sl)"
  shows "slFires prices pos =
           (sl \<noteq> 0 \<and> (if pos_direction pos = LONG then c \<le> sl else sl \<le> c))"
  using assms by (simp add: slFires_def)

lemma tpFires_falsy:
  "takeProfit pos = None \<or> takeProfit pos = Some (Fin 0) \<or> takeProfit pos = Some NaN \<Longrightarrow>
   \<not> tpFires prices pos"
  by (auto simp: tpFires_def)

lemma slFires_falsy:
  "stopLoss pos = None \<or> stopLoss pos = Some (Fin 0) \<or> stopLoss pos = Some NaN \<Longrightarrow>
   \<not> slFires prices pos"
  by (auto simp: slFires_def)

text \<open>The four branches of the callback.\<close>

lemma revalue_tp:
  "tpFires prices pos \<Longrightarrow>
   revalue prices pos =
     (True, pos\<lparr>unrealizedPnL := tick_pnl prices pos, closedByTP := True\<rparr>)"
  by (simp add: revalue_def)

lemma revalue_sl:
  "\<not> tpFires prices pos \<Longrightarrow> slFires prices pos \<Longrightarrow>
   revalue prices pos =
     (True, pos\<lparr>unrealizedPnL := tick_pnl prices pos, closedBySL := True\<rparr>)"
  by (simp add: revalue_def)

lemma revalue_liq:
  "\<not> tpFires prices pos \<Longrightarrow> \<not> slFires prices pos \<Longrightarrow>
   jle (tick_pnl prices pos) (jneg (riskOf pos)) \<Longrightarrow>
   revalue prices pos =
     (True, pos\<lparr>unrealizedPnL := jneg (riskOf pos), liquidated := True\<rparr>)"
  by (simp add: revalue_def)

lemma revalue_open:
  "\<not> tpFires prices pos \<Longrightarrow> \<not> slFires prices pos \<Longrightarrow>
   \<not> jle (tick_pnl prices pos) (jneg (riskOf pos)) \<Longrightarrow>
   revalue prices pos = (False, pos\<lparr>unrealizedPnL := tick_pnl prices pos\<rparr>)"
  by (simp add: revalue_def)

lemma revalue_te_branches:
  "tpFires prices pos \<Longrightarrow>
   revalue_te prices pos =
     (True, pos\<lparr>unrealizedPnL := tick_pnl_te prices pos, closedByTP := True\<rparr>)"
  "\<not> tpFires prices pos \<Longrightarrow> slFires prices pos \<Longrightarrow>
   revalue_te prices pos =
     (True, pos\<lparr>unrealizedPnL := tick_pnl_te prices pos, closedBySL := True\<rparr>)"
  "\<not> tpFires prices pos \<Longrightarrow> \<not> slFires prices pos \<Longrightarrow>
   jle (tick_pnl_te prices pos) (jneg (jsub (initialMargin pos) (maintenanceMargin pos))) \<Longrightarrow>
   revalue_te prices pos =
     (True, pos\<lparr>unrealizedPnL := jneg (pos_size pos), liquidated := True\<rparr>)"
  "\<not> tpFires prices pos \<Longrightarrow> \<not> slFires prices pos \<Longrightarrow>
   \<not> jle (tick_pnl_te prices pos) (jneg (jsub (initialMargin pos) (maintenanceMargin pos))) \<Longrightarrow>
   revalue_te prices pos = (False, pos\<lparr>unrealizedPnL := tick_pnl_te prices pos\<rparr>)"
  by (simp_all add: revalue_te_def Let_def)

text \<open>On a position of the open set, the flags of the result tell which check fired.\<close>

lemma revalue_flags:
  assumes "still_open pos"
  shows "closedByTP (snd (revalue prices pos)) = tpFires prices pos"
    and "closedBySL (snd (revalue prices pos)) = (\<not> tpFires prices pos \<and> slFires prices pos)"
    and "liquidated (snd (revalue prices pos)) =
           (\<not> tpFires prices pos \<and> \<not> slFires prices pos \<and>
            jle (tick_pnl prices pos) (jneg (riskOf pos)))"
  using assms by (simp_all add: revalue_def still_open_def Let_def)

lemma revalue_te_flags:
  assumes "still_open pos"
  shows "closedByTP (snd (revalue_te prices pos)) = tpFires prices pos"
    and "closedBySL (snd (revalue_te prices pos)) = (\<not> tpFires prices pos \<and> slFires prices pos)"
  using assms by (simp_all add: revalue_te_def still_open_def Let_def)

lemma revalue_te_liquidated:
  assumes "still_open pos"
  shows "liquidated (snd (revalue_te prices pos)) =
           (\<not> tpFires prices pos \<and> \<not> slFires prices pos \<and>
            jle (tick_pnl_te prices pos)
                (jneg (jsub (initialMargin pos) (maintenanceMargin pos))))"
  using assms by (simp add: revalue_te_def still_open_def Let_def)



text \<open>
  What the callback stores as \<open>unrealizedPnL\<close>, and what the tick leaves in the open set.
\<close>

lemma revalue_stores:
  assumes "tick_pnl prices q = Fin F" and "\<not> liquidated q"
  shows "unrealizedPnL (snd (revalue prices q)) =
           (if liquidated (snd (revalue prices q)) then jneg (riskOf q) else Fin F)"
  using assms by (simp add: revalue_def Let_def)

lemma revalue_te_stores:
  assumes "tick_pnl_te prices q = Fin F" and "\<not> liquidated q"
  shows "unrealizedPnL (snd (revalue_te prices q)) =
           (if liquidated (snd (revalue_te prices q)) then jneg (pos_size q) else Fin F)"
  using assms by (simp add: revalue_te_def Let_def)

lemma revalue_not_closed:
  "\<not> fst (revalue prices q) \<Longrightarrow>
   revalue prices q = (False, q\<lparr>unrealizedPnL := tick_pnl prices q\<rparr>)"
  "\<not> fst (revalue_te prices q) \<Longrightarrow>
   revalue_te prices q = (False, q\<lparr>unrealizedPnL := tick_pnl_te prices q\<rparr>)"
proof -
  show "revalue prices q = (False, q\<lparr>unrealizedPnL := tick_pnl prices q\<rparr>)"
    if "\<not> fst (revalue prices q)"
    using that
    by (cases "tpFires prices q"; cases "slFires prices q";
        cases "jle (tick_pnl prices q) (jneg (riskOf q))")
       (simp_all add: revalue_tp revalue_sl revalue_liq revalue_open)
  show "revalue_te prices q = (False, q\<lparr>unrealizedPnL := tick_pnl_te prices q\<rparr>)"
    if "\<not> fst (revalue_te prices q)"
    using that
    by (cases "tpFires prices q"; cases "slFires prices q";
        cases "jle (tick_pnl_te prices q) (jneg (jsub (initialMargin q) (maintenanceMargin q)))")
       (simp_all add: revalue_te_branches)
qed

lemma updatePositions_keeps:
  assumes "q \<in> set (positions s)" and "truthy_opt (prices BTC)"
      and "\<not> fst (revalue prices q)" and "still_open q"
  shows "q\<lparr>unrealizedPnL := tick_pnl prices q\<rparr> \<in> set (positions (updatePositions prices s))"
    and "q\<lparr>unrealizedPnL := tick_pnl prices q\<rparr> \<in> set (positions (updatePositions_mtc prices s))"
proof -
  let ?q = "q\<lparr>unrealizedPnL := tick_pnl prices q\<rparr>"
  have r: "snd (revalue prices q) = ?q"
    using revalue_not_closed(1) [OF assms(3)] by simp
  have so: "still_open ?q"
    using assms(4) by (simp add: still_open_def)
  have ne: "positions s \<noteq> []"
    using assms(1) by auto
  have "?q \<in> (\<lambda>x. snd (revalue prices x)) ` set (positions s)"
    using assms(1) r [symmetric] by (rule rev_image_eqI)
  then have m: "?q \<in> set (filter still_open (map snd (map (revalue prices) (positions s))))"
    using so by simp
  show "?q \<in> set (positions (updatePositions prices s))"
    using m ne assms(2) by (simp add: updatePositions_def Let_def)
  show "?q \<in> set (positions (updatePositions_mtc prices s))"
    using m ne assms(2) by (simp add: updatePositions_mtc_def Let_def)
qed

lemma updatePositions_te_keeps:
  assumes "q \<in> set (positions s)" and "truthy_opt (prices BTC)"
      and "\<not> fst (revalue_te prices q)" and "still_open q"
  shows "q\<lparr>unrealizedPnL := tick_pnl_te prices q\<rparr> \<in> set (positions (updatePositions_te prices s))"
proof -
  let ?q = "q\<lparr>unrealizedPnL := tick_pnl_te prices q\<rparr>"
  have r: "snd (revalue_te prices q) = ?q"
    using revalue_not_closed(2) [OF assms(3)] by simp
  have so: "still_open ?q"
    using assms(4) by (simp add: still_open_def)
  have ne: "positions s \<noteq> []"
    using assms(1) by auto
  have "?q \<in> (\<lambda>x. snd (revalue_te prices x)) ` set (positions s)"
    using assms(1) r [symmetric] by (rule rev_image_eqI)
  then have m: "?q \<in> set (filter still_open (map snd (map (revalue_te prices) (positions s))))"
    using so by simp
  show "?q \<in> set (positions (updatePositions_te prices s))"
    using m ne assms(2) by (simp add: updatePositions_te_def Let_def)
qed

subsection \<open>Opening and closing\<close>

text \<open>What a successful call of \<open>openPosition\<close> returns, and the fields of the new position.\<close>

lemma openPosition_Inr:
  "openPosition pf now nowText prices st = Inr st' \<longleftrightarrow>
     truthy_opt (prices (selectedMarket st)) \<and>
     \<not> jlt (balance st) (jdiv (positionSize st) (resolveLeverage pf st)) \<and>
     st' = st\<lparr>balance := jsub (balance st) (positionSize st),
              positions := positions st @
                [newPosition pf now nowText st (entryOf pf prices st) (resolveLeverage pf st)]\<rparr>"
  by (auto simp: openPosition_def Let_def)

lemma openPosition_mtc_Inr:
  "openPosition_mtc pf now nowText prices st = Inr st' \<longleftrightarrow>
     truthy_opt (prices (selectedMarket st)) \<and>
     \<not> jlt (balance st) (jdiv (positionSize st) (resolveLeverage_mtc pf st)) \<and>
     st' = st\<lparr>positions := positions st @
                [newPosition pf now nowText st (entryOf pf prices st) (resolveLeverage_mtc pf st)]\<rparr>"
  by (auto simp: openPosition_mtc_def Let_def)

lemma openPosition_te_Inr:
  "openPosition_te pf now nowText prices st = Inr st' \<longleftrightarrow>
     truthy_opt (prices (selectedMarket st)) \<and>
     \<not> jlt (balance st)
         (jadd (jdiv (positionSize st) (resolveLeverage pf st))
               (jmul (positionSize st) TRADING_FEE_RATE)) \<and>
     st' = st\<lparr>balance := jsub (balance st)
                 (jadd (jdiv (positionSize st) (resolveLeverage pf st))
                       (jmul (positionSize st) TRADING_FEE_RATE)),
              positions := positions st @
                [newPosition_te pf now nowText st (entryOf pf prices st) (resolveLeverage pf st)]\<rparr>"
  by (auto simp: openPosition_te_def Let_def)

lemma newPosition_fields [simp]:
  "pos_id (newPosition pf now nowText st entry lev) = now"
  "market (newPosition pf now nowText st entry lev) = selectedMarket st"
  "entryPrice (newPosition pf now nowText st entry lev) = entry"
  "pos_direction (newPosition pf now nowText st entry lev) = direction st"
  "pos_size (newPosition pf now nowText st entry lev) = jmul (positionSize st) lev"
  "riskAmount (newPosition pf now nowText st entry lev) = Some (positionSize st)"
  "leverage (newPosition pf now nowText st entry lev) = lev"
  "initialMargin (newPosition pf now nowText st entry lev) = positionSize st"
  "unrealizedPnL (newPosition pf now nowText st entry lev) = Fin 0"
  "takeProfit (newPosition pf now nowText st entry lev) =
     parseTrigger pf (takeProfitText (advancedSettings st))"
  "stopLoss (newPosition pf now nowText st entry lev) =
     parseTrigger pf (stopLossText (advancedSettings st))"
  "still_open (newPosition pf now nowText st entry lev)"
  by (simp_all add: newPosition_def Let_def still_open_def)

lemma newPosition_liquidationPrice:
  "liquidationPrice (newPosition pf now nowText st entry lev) =
     (if direction st = LONG then jmul entry (jsub (Fin 1) (jdiv (Fin 1) lev))
      else jmul entry (jadd (Fin 1) (jdiv (Fin 1) lev)))"
  by (simp add: newPosition_def Let_def)

lemma newPosition_te_fields [simp]:
  "pos_id (newPosition_te pf now nowText st entry lev) = now"
  "market (newPosition_te pf now nowText st entry lev) = selectedMarket st"
  "entryPrice (newPosition_te pf now nowText st entry lev) = entry"
  "pos_direction (newPosition_te pf now nowText st entry lev) = direction st"
  "pos_size (newPosition_te pf now nowText st entry lev) = positionSize st"
  "riskAmount (newPosition_te pf now nowText st entry lev) = None"
  "leverage (newPosition_te pf now nowText st entry lev) = lev"
  "initialMargin (newPosition_te pf now nowText st entry lev) = jdiv (positionSize st) lev"
  "maintenanceMargin (newPosition_te pf now nowText st entry lev) =
     jmul (jdiv (positionSize st) lev) (Fin (1 / 2))"
  "unrealizedPnL (newPosition_te pf now nowText st entry lev) = Fin 0"
  "still_open (newPosition_te pf now nowText st entry lev)"
  by (simp_all add: newPosition_te_def Let_def still_open_def)

lemma newPosition_te_liquidationPrice:
  "liquidationPrice (newPosition_te pf now nowText st entry lev) =
     (if direction st = LONG then jmul entry (jsub (Fin 1) (jdiv (Fin (1 / 2)) lev))
      else jmul entry (jadd (Fin 1) (jdiv (Fin (1 / 2)) lev)))"
  by (simp add: newPosition_te_def Let_def)


text \<open>\<open>positions.find\<close> by id, and the ids left after \<open>closePosition\<close>.\<close>

lemma find_pos_None: "find (\<lambda>p. pos_id p = i) ps = None \<longleftrightarrow> i \<notin> pos_id ` set ps"
  by (auto simp: find_None_iff)


lemma closePosition_absent:
  "i \<notin> pos_id ` set (positions st) \<Longrightarrow> closePosition i st = st"
  by (simp add: closePosition_def find_pos_None [THEN iffD2])

lemma closePosition_ids:
  "pos_id ` set (positions (closePosition i st)) = pos_id ` set (positions st) - {i}"
proof (cases "find (\<lambda>p. pos_id p = i) (positions st)")
  case None
  then have "i \<notin> pos_id ` set (positions st)"
    by (simp add: find_pos_None)
  then show ?thesis
    by (simp add: closePosition_absent)
next
  case (Some p)
  then show ?thesis
    by (auto simp: closePosition_def)
qed

subsection \<open>The sample inputs\<close>


lemma sample_state_fields:
  "positionSize sample_state = Fin 50"
  "direction sample_state = LONG"
  "selectedMarket sample_state = BTC"
  "positions sample_state = []"
  "balance sample_state = Fin 1000"
  "entryOf pf sample_prices sample_state = Fin 95000"
  "resolveLeverage pf sample_state = Fin 5"
  "resolveLeverage_mtc pf sample_state = Fin 5"
  by (simp_all add: sample_state_def sample_settings_def entryOf_def resolveLeverage_def
        resolveLeverage_mtc_def sample_prices_def)

lemma sample_newPosition:
  "newPosition pf 1 ''10:00:00'' sample_state (Fin 95000) (Fin 5) = sample_position"
  by (simp add: newPosition_def Let_def parseTrigger_def sample_state_def sample_settings_def
        sample_position_def)

lemma sample_newPosition_te:
  "newPosition_te pf 1 ''10:00:00'' sample_state (Fin 95000) (Fin 5) = sample_position_te"
  by (simp add: newPosition_te_def Let_def parseTrigger_def sample_state_def sample_settings_def
        sample_position_te_def)

lemma sample_open:
  "openPosition pf 1 ''10:00:00'' sample_prices sample_state = Inr sample_opened"
  by (simp add: openPosition_Inr sample_state_fields sample_newPosition sample_opened_def del: One_nat_def)
     (simp add: sample_prices_def)

lemma sample_open_mtc:
  "openPosition_mtc pf 1 ''10:00:00'' sample_prices sample_state = Inr sample_opened_mtc"
  by (simp add: openPosition_mtc_Inr sample_state_fields sample_newPosition sample_opened_mtc_def del: One_nat_def)
     (simp add: sample_prices_def)

lemma sample_open_te:
  "openPosition_te pf 1 ''10:00:00'' sample_prices sample_state = Inr sample_opened_te"
  by (simp add: openPosition_te_Inr sample_state_fields sample_newPosition_te sample_opened_te_def
        TRADING_FEE_RATE_def del: One_nat_def)
     (simp add: sample_prices_def)

lemma sample_opened_close:
  "closePosition 1 sample_opened = sample_opened\<lparr>balance := Fin 1000, positions := []\<rparr>"
  by (simp add: closePosition_def sample_opened_def sample_position_def)

lemma sample_position_open: "still_open sample_position"
  by (simp add: still_open_def sample_position_def)

lemma sample_position_price: "toNumber (btc_at c (market sample_position)) = Fin c"
  by (simp add: btc_at_def sample_position_def)

lemma sample_position_fields:
  "riskAmount sample_position = Some (Fin 50)"
  "entryPrice sample_position = Fin 95000"
  "pos_size sample_position = Fin 250"
  "pos_direction sample_position = LONG"
  "takeProfit sample_position = None"
  "stopLoss sample_position = None"
  by (simp_all add: sample_position_def)

lemma sample_tpsl_open: "still_open sample_position_tpsl"
  by (simp add: still_open_def sample_position_tpsl_def sample_position_def)

lemma sample_tpsl_price: "toNumber (btc_at c (market sample_position_tpsl)) = Fin c"
  by (simp add: btc_at_def sample_position_tpsl_def sample_position_def)

lemma sample_tpsl_tp: "takeProfit sample_position_tpsl = Some (Fin 70000)"
  and sample_tpsl_sl: "stopLoss sample_position_tpsl = Some (Fin 90000)"
  and sample_tpsl_dir: "pos_direction sample_position_tpsl = LONG"
  by (simp_all add: sample_position_tpsl_def sample_position_def)

lemma sample_tpsl_pnl: "tick_pnl (btc_at c) sample_position_tpsl = Fin ((c - 95000) / 95000 * 250)"
  by (simp add: tick_pnl_def btc_at_def sample_position_tpsl_def sample_position_def)

lemma sample_tpsl_risk: "riskOf sample_position_tpsl = Fin 50"
  by (simp add: riskOf_def sample_position_tpsl_def sample_position_def)

lemma sample_tpsl_fields:
  "riskAmount sample_position_tpsl = Some (Fin 50)"
  "entryPrice sample_position_tpsl = Fin 95000"
  "pos_size sample_position_tpsl = Fin 250"
  by (simp_all add: sample_position_tpsl_def sample_position_def)



lemma sample_sl_open:
  "openPosition parseFloat_sample 1 ''10:00:00'' sample_prices sample_state_sl = Inr sample_opened_sl"
  by (simp add: openPosition_def resolveLeverage_def entryOf_def newPosition_def parseTrigger_def Let_def
        sample_opened_sl_def sample_state_sl_def sample_state_def sample_settings_def
        sample_prices_def parseFloat_sample_def sample_position_sl_def sample_position_def)

lemma sample_sl_revalue:
  "revalue (btc_at 65000) sample_position_sl =
     (True, sample_position_sl\<lparr>unrealizedPnL := Fin (- (1500 / 19)), closedBySL := True\<rparr>)"
  by (simp add: revalue_def tpFires_def slFires_def tick_pnl_def btc_at_def
        sample_position_sl_def sample_position_def)

lemma sample_sl_tick:
  "updatePositions (btc_at 65000) sample_opened_sl =
     sample_opened_sl\<lparr>balance := Fin (1000 - 1500 / 19), positions := []\<rparr>"
proof -
  have "positions sample_opened_sl = [sample_position_sl]" "balance sample_opened_sl = Fin 950"
    by (simp_all add: sample_opened_sl_def)
  moreover have "truthy_opt (btc_at 65000 BTC)"
    by (simp add: btc_at_def)
  moreover have "initialMargin sample_position_sl = Fin 50"
    by (simp add: sample_position_sl_def sample_position_def)
  ultimately show ?thesis
    by (simp add: updatePositions_def sample_sl_revalue totalReturn_def still_open_def)
qed



lemma sample_te_fields:
  "still_open sample_position_te"
  "entryPrice sample_position_te = Fin 95000"
  "pos_size sample_position_te = Fin 50"
  "leverage sample_position_te = Fin 5"
  "initialMargin sample_position_te = Fin 10"
  "maintenanceMargin sample_position_te = Fin 5"
  "pos_direction sample_position_te = LONG"
  "toNumber (btc_at c (market sample_position_te)) = Fin c"
  by (simp_all add: sample_position_te_def still_open_def btc_at_def)

lemma sample_te_liquidated:
  "liquidated (snd (revalue_te (btc_at 93000) sample_position_te))"
  by (simp add: revalue_te_def tpFires_def slFires_def tick_pnl_te_def btc_at_def
        sample_position_te_def)

lemma sample_falsy_open:
  "openPosition parseFloat_sample 1 ''10:00:00'' sample_prices sample_state_falsy =
     Inr sample_opened_falsy"
  by (simp add: openPosition_def resolveLeverage_def entryOf_def newPosition_def parseTrigger_def
        Let_def sample_opened_falsy_def sample_state_falsy_def sample_state_def
        sample_settings_def sample_prices_def parseFloat_sample_def sample_position_falsy_def
        sample_position_def)

lemma sample_falsy_fields:
  "still_open sample_position_falsy"
  "takeProfit sample_position_falsy = Some (Fin 0)"
  "stopLoss sample_position_falsy = Some NaN"
  "pos_direction sample_position_falsy = LONG"
  "toNumber (btc_at c (market sample_position_falsy)) = Fin c"
  by (simp_all add: sample_position_falsy_def sample_position_def still_open_def btc_at_def)

lemma sample_falsy_closes:
  "fst (revalue (btc_at 70000) sample_position_falsy)"
  by (simp add: revalue_def tpFires_def slFires_def tick_pnl_def riskOf_def btc_at_def
        sample_position_falsy_def sample_position_def)






lemma sample_tick_94000:
  "truthy_opt (btc_at 94000 BTC)"
  "revalue (btc_at 94000) sample_position =
     (False, sample_position\<lparr>unrealizedPnL := Fin (- (50 / 19))\<rparr>)"
  "revalue_te (btc_at 94000) sample_position_te =
     (False, sample_position_te\<lparr>unrealizedPnL := Fin (- (50 / 19))\<rparr>)"
  by (simp_all add: revalue_def revalue_te_def tpFires_def slFires_def tick_pnl_def
        tick_pnl_te_def riskOf_def btc_at_def sample_position_def sample_position_te_def)

lemma sample_opened_positions:
  "positions sample_opened = [sample_position]"
  "positions sample_opened_mtc = [sample_position]"
  "positions sample_opened_te = [sample_position_te]"
  by (simp_all add: sample_opened_def sample_opened_mtc_def sample_opened_te_def)

section \<open>C1: the liquidation price\<close>

text \<open>
  C1, as stated, fails for \<open>useTradingEngine.openPosition\<close>: it keeps half of the margin
  as maintenance margin and puts the liquidation price at a distance of \<open>0.5/leverage\<close>
  from the entry. A LONG position opened at 95000 with leverage 5 gets the liquidation
  price 85500, not \<open>95000 * (1 - 1/5) = 76000\<close>.
\<close>

theorem C1_counterexample:
  "openPosition_te parseFloat_sample 1 ''10:00:00'' sample_prices sample_state = Inr sample_opened_te
   \<and> map entryPrice (positions sample_opened_te) = [Fin 95000]
   \<and> map leverage (positions sample_opened_te) = [Fin 5]
   \<and> map pos_direction (positions sample_opened_te) = [LONG]
   \<and> map liquidationPrice (positions sample_opened_te) = [Fin 85500]
   \<and> Fin 85500 \<noteq> Fin (95000 * (1 - 1 / 5))"
  using sample_open_te [of parseFloat_sample]
  by (simp add: sample_opened_te_def sample_position_te_def)

text \<open>
  C1, amended. Let the entry price be \<open>e > 0\<close> and the leverage \<open>L > 0\<close>. A position
  opened by \<open>openPosition\<close> of \<open>useAppState\<close> (in both versions) stores the
  liquidation price \<open>e * (1 - 1/L)\<close> when LONG and \<open>e * (1 + 1/L)\<close> when SHORT; one
  opened by \<open>openPosition\<close> of \<open>useTradingEngine\<close> stores \<open>e * (1 - 0.5/L)\<close> when LONG
  and \<open>e * (1 + 0.5/L)\<close> when SHORT. In each case the value is the same for every
  position size \<open>r\<close> (the risk amount) with which the call succeeds.
\<close>

theorem C1_liquidation_price:
  assumes "0 < e" and "0 < L" and "entryOf pf prices st = Fin e"
  shows "(resolveLeverage pf st = Fin L \<and>
          openPosition pf now nowText prices (st\<lparr>positionSize := r\<rparr>) = Inr st' \<longrightarrow>
            (\<exists>p. positions st' = positions st @ [p] \<and> entryPrice p = Fin e \<and> leverage p = Fin L \<and>
               liquidationPrice p =
                 Fin (if direction st = LONG then e * (1 - 1 / L) else e * (1 + 1 / L))))
       \<and> (resolveLeverage_mtc pf st = Fin L \<and>
          openPosition_mtc pf now nowText prices (st\<lparr>positionSize := r\<rparr>) = Inr st' \<longrightarrow>
            (\<exists>p. positions st' = positions st @ [p] \<and> entryPrice p = Fin e \<and> leverage p = Fin L \<and>
               liquidationPrice p =
                 Fin (if direction st = LONG then e * (1 - 1 / L) else e * (1 + 1 / L))))
       \<and> (resolveLeverage pf st = Fin L \<and>
          openPosition_te pf now nowText prices (st\<lparr>positionSize := r\<rparr>) = Inr st' \<longrightarrow>
            (\<exists>p. positions st' = positions st @ [p] \<and> entryPrice p = Fin e \<and> leverage p = Fin L \<and>
               liquidationPrice p =
                 Fin (if direction st = LONG then e * (1 - (1 / 2) / L)
                      else e * (1 + (1 / 2) / L))))"
proof -
  have "entryOf pf prices (st\<lparr>positionSize := r\<rparr>) = entryOf pf prices st"
    by (simp add: entryOf_def)
  then have e: "entryOf pf prices (st\<lparr>positionSize := r\<rparr>) = Fin e"
    using assms(3) by simp
  have l: "resolveLeverage pf (st\<lparr>positionSize := r\<rparr>) = resolveLeverage pf st"
    by (simp add: resolveLeverage_def)
  have l2: "resolveLeverage_mtc pf (st\<lparr>positionSize := r\<rparr>) = resolveLeverage_mtc pf st"
    by (simp add: resolveLeverage_mtc_def)
  show ?thesis
    using assms(1,2)
    by (simp add: openPosition_Inr openPosition_mtc_Inr openPosition_te_Inr e l l2
          newPosition_liquidationPrice newPosition_te_liquidationPrice)
qed

theorem C1_liquidation_price_witness:
  "(0::real) < 95000 \<and> (0::real) < 5
   \<and> entryOf parseFloat_sample sample_prices sample_state = Fin 95000
   \<and> resolveLeverage parseFloat_sample sample_state = Fin 5
   \<and> resolveLeverage_mtc parseFloat_sample sample_state = Fin 5
   \<and> openPosition parseFloat_sample 1 ''10:00:00'' sample_prices sample_state = Inr sample_opened
   \<and> openPosition_mtc parseFloat_sample 1 ''10:00:00'' sample_prices sample_state = Inr sample_opened_mtc
   \<and> openPosition_te parseFloat_sample 1 ''10:00:00'' sample_prices sample_state = Inr sample_opened_te
   \<and> (\<exists>p. positions sample_opened = positions sample_state @ [p] \<and> liquidationPrice p = Fin 76000)
   \<and> (\<exists>p. positions sample_opened_mtc = positions sample_state @ [p] \<and> liquidationPrice p = Fin 76000)
   \<and> (\<exists>p. positions sample_opened_te = positions sample_state @ [p] \<and> liquidationPrice p = Fin 85500)"
proof -
  have s: "sample_state\<lparr>positionSize := Fin 50\<rparr> = sample_state"
    by (simp add: sample_state_def)
  have "(\<exists>p. positions sample_opened = positions sample_state @ [p] \<and> entryPrice p = Fin 95000 \<and>
            leverage p = Fin 5 \<and> liquidationPrice p = Fin 76000)
      \<and> (\<exists>p. positions sample_opened_mtc = positions sample_state @ [p] \<and> entryPrice p = Fin 95000 \<and>
            leverage p = Fin 5 \<and> liquidationPrice p = Fin 76000)
      \<and> (\<exists>p. positions sample_opened_te = positions sample_state @ [p] \<and> entryPrice p = Fin 95000 \<and>
            leverage p = Fin 5 \<and> liquidationPrice p = Fin 85500)"
    using C1_liquidation_price [of 95000 5 parseFloat_sample sample_prices sample_state
        1 "''10:00:00''" "Fin 50" sample_opened]
      C1_liquidation_price [of 95000 5 parseFloat_sample sample_prices sample_state
        1 "''10:00:00''" "Fin 50" sample_opened_mtc]
      C1_liquidation_price [of 95000 5 parseFloat_sample sample_prices sample_state
        1 "''10:00:00''" "Fin 50" sample_opened_te]
    by (simp add: s sample_state_fields sample_open sample_open_mtc sample_open_te del: One_nat_def)
  then show ?thesis
    by (simp add: sample_state_fields sample_open sample_open_mtc sample_open_te del: One_nat_def)
       blast
qed

section \<open>C2: the liquidation clamp\<close>

text \<open>
  C2, as stated, fails: a position that a stop-loss (or a take-profit) closes settles at
  the recomputed PnL, which is not clamped. The sample position (risk 50) with a
  stop-loss at 90000 is closed by SL at a BTC price of 65000 with a PnL of
  \<open>-1500/19\<close>, about \<open>-78.95\<close>, and the balance ends at \<open>1000 - 1500/19\<close>.
\<close>

theorem C2_counterexample:
  "openPosition parseFloat_sample 1 ''10:00:00'' sample_prices sample_state_sl = Inr sample_opened_sl
   \<and> revalue (btc_at 65000) sample_position_sl =
       (True, sample_position_sl\<lparr>unrealizedPnL := Fin (- (1500 / 19)), closedBySL := True\<rparr>)
   \<and> riskAmount sample_position_sl = Some (Fin 50)
   \<and> \<not> jge (Fin (- (1500 / 19))) (jneg (Fin 50))
   \<and> updatePositions (btc_at 65000) sample_opened_sl =
       sample_opened_sl\<lparr>balance := Fin (1000 - 1500 / 19), positions := []\<rparr>"
  using sample_sl_open sample_sl_revalue sample_sl_tick
  by (simp add: sample_position_sl_def sample_position_def)

text \<open>
  C2, amended. Take a position of the open set with a finite nonzero entry price and a
  finite size, and a tick with a finite current price.
  \<^item> In \<open>useAppState\<close> (both versions), with risk amount \<open>r > 0\<close> and \<open>pnl\<close> the
    recomputed PnL: if neither TP nor SL fired and \<open>pnl \<le> -r\<close>, the position is
    liquidated and its \<open>unrealizedPnL\<close> is exactly \<open>-r\<close>, however far the price
    overshoots; a liquidated position has \<open>unrealizedPnL = -r\<close>; a position that stays
    open has \<open>unrealizedPnL = pnl > -r\<close>; a position closed by TP or SL has
    \<open>unrealizedPnL = pnl\<close>, not clamped.
  \<^item> In \<open>useTradingEngine\<close>, whose positions have no \<open>riskAmount\<close>, with \<open>pnl'\<close> its
    recomputed PnL: if neither TP nor SL fired and
    \<open>pnl' \<le> -(initialMargin - maintenanceMargin)\<close>, the position is liquidated and its
    \<open>unrealizedPnL\<close> is exactly \<open>-size\<close>; a position that stays open has
    \<open>unrealizedPnL = pnl' > -(initialMargin - maintenanceMargin)\<close>; a position closed by
    TP or SL has \<open>unrealizedPnL = pnl'\<close>, not clamped.
\<close>

theorem C2_liquidation_clamp:
  assumes "still_open pos" and "entryPrice pos = Fin e" and "e \<noteq> 0" and "pos_size pos = Fin n"
      and "toNumber (prices (market pos)) = Fin c"
      and "m = (if pos_direction pos = LONG then 1 else - 1)"
  shows "(riskAmount pos = Some (Fin r) \<and> 0 < r \<and> pnl = (c - e) / e * n * m \<longrightarrow>
            (\<not> closedByTP (snd (revalue prices pos)) \<and> \<not> closedBySL (snd (revalue prices pos)) \<and>
             pnl \<le> - r \<longrightarrow>
               revalue prices pos = (True, pos\<lparr>unrealizedPnL := Fin (- r), liquidated := True\<rparr>))
          \<and> (liquidated (snd (revalue prices pos)) \<longrightarrow>
               unrealizedPnL (snd (revalue prices pos)) = Fin (- r))
          \<and> (still_open (snd (revalue prices pos)) \<longrightarrow>
               unrealizedPnL (snd (revalue prices pos)) = Fin pnl \<and> - r < pnl)
          \<and> (closedByTP (snd (revalue prices pos)) \<or> closedBySL (snd (revalue prices pos)) \<longrightarrow>
               unrealizedPnL (snd (revalue prices pos)) = Fin pnl))
       \<and> (leverage pos = Fin L \<and> initialMargin pos = Fin im \<and> maintenanceMargin pos = Fin mm \<and>
          pnl' = (c - e) / e * n * L * m \<longrightarrow>
            (\<not> closedByTP (snd (revalue_te prices pos)) \<and>
             \<not> closedBySL (snd (revalue_te prices pos)) \<and> pnl' \<le> - (im - mm) \<longrightarrow>
               revalue_te prices pos = (True, pos\<lparr>unrealizedPnL := Fin (- n), liquidated := True\<rparr>))
          \<and> (liquidated (snd (revalue_te prices pos)) \<longrightarrow>
               unrealizedPnL (snd (revalue_te prices pos)) = Fin (- n))
          \<and> (still_open (snd (revalue_te prices pos)) \<longrightarrow>
               unrealizedPnL (snd (revalue_te prices pos)) = Fin pnl' \<and> - (im - mm) < pnl')
          \<and> (closedByTP (snd (revalue_te prices pos)) \<or> closedBySL (snd (revalue_te prices pos)) \<longrightarrow>
               unrealizedPnL (snd (revalue_te prices pos)) = Fin pnl'))"
proof -
  have A: "(\<not> closedByTP (snd (revalue prices pos)) \<and> \<not> closedBySL (snd (revalue prices pos)) \<and>
             pnl \<le> - r \<longrightarrow>
               revalue prices pos = (True, pos\<lparr>unrealizedPnL := Fin (- r), liquidated := True\<rparr>))
          \<and> (liquidated (snd (revalue prices pos)) \<longrightarrow>
               unrealizedPnL (snd (revalue prices pos)) = Fin (- r))
          \<and> (still_open (snd (revalue prices pos)) \<longrightarrow>
               unrealizedPnL (snd (revalue prices pos)) = Fin pnl \<and> - r < pnl)
          \<and> (closedByTP (snd (revalue prices pos)) \<or> closedBySL (snd (revalue prices pos)) \<longrightarrow>
               unrealizedPnL (snd (revalue prices pos)) = Fin pnl)"
    if h: "riskAmount pos = Some (Fin r) \<and> 0 < r \<and> pnl = (c - e) / e * n * m"
  proof -
    have p: "tick_pnl prices pos = Fin pnl"
      using tick_pnl_Fin [of pos e n prices c] assms h by simp
    have r: "riskOf pos = Fin r"
      using riskOf_Fin [of pos r] h by simp
    have liq: "jle (tick_pnl prices pos) (jneg (riskOf pos)) = (pnl \<le> - r)"
      by (simp add: p r)
    consider (tp) "tpFires prices pos"
      | (sl) "\<not> tpFires prices pos" "slFires prices pos"
      | (lq) "\<not> tpFires prices pos" "\<not> slFires prices pos" "pnl \<le> - r"
      | (op) "\<not> tpFires prices pos" "\<not> slFires prices pos" "\<not> pnl \<le> - r"
      by blast
    then show ?thesis
    proof cases
      case tp
      then show ?thesis
        using assms(1) by (simp add: revalue_tp p still_open_def)
    next
      case sl
      then show ?thesis
        using assms(1) by (simp add: revalue_sl p still_open_def)
    next
      case lq
      then show ?thesis
        using assms(1) liq by (simp add: revalue_liq r still_open_def)
    next
      case op
      then show ?thesis
        using assms(1) liq by (simp add: revalue_open p still_open_def)
    qed
  qed
  have B: "(\<not> closedByTP (snd (revalue_te prices pos)) \<and>
             \<not> closedBySL (snd (revalue_te prices pos)) \<and> pnl' \<le> - (im - mm) \<longrightarrow>
               revalue_te prices pos = (True, pos\<lparr>unrealizedPnL := Fin (- n), liquidated := True\<rparr>))
          \<and> (liquidated (snd (revalue_te prices pos)) \<longrightarrow>
               unrealizedPnL (snd (revalue_te prices pos)) = Fin (- n))
          \<and> (still_open (snd (revalue_te prices pos)) \<longrightarrow>
               unrealizedPnL (snd (revalue_te prices pos)) = Fin pnl' \<and> - (im - mm) < pnl')
          \<and> (closedByTP (snd (revalue_te prices pos)) \<or> closedBySL (snd (revalue_te prices pos)) \<longrightarrow>
               unrealizedPnL (snd (revalue_te prices pos)) = Fin pnl')"
    if h: "leverage pos = Fin L \<and> initialMargin pos = Fin im \<and> maintenanceMargin pos = Fin mm \<and>
          pnl' = (c - e) / e * n * L * m"
  proof -
    have p: "tick_pnl_te prices pos = Fin pnl'"
      using tick_pnl_te_Fin [of pos e n L prices c] assms h by simp
    have liq: "jle (tick_pnl_te prices pos) (jneg (jsub (initialMargin pos) (maintenanceMargin pos)))
                 = (pnl' \<le> - (im - mm))"
      using h by (simp add: p)
    have n: "jneg (pos_size pos) = Fin (- n)"
      by (simp add: assms(4))
    consider (tp) "tpFires prices pos"
      | (sl) "\<not> tpFires prices pos" "slFires prices pos"
      | (lq) "\<not> tpFires prices pos" "\<not> slFires prices pos" "pnl' \<le> - (im - mm)"
      | (op) "\<not> tpFires prices pos" "\<not> slFires prices pos" "\<not> pnl' \<le> - (im - mm)"
      by blast
    then show ?thesis
    proof cases
      case tp
      then show ?thesis
        using assms(1) by (simp add: revalue_te_branches(1) p still_open_def)
    next
      case sl
      then show ?thesis
        using assms(1) by (simp add: revalue_te_branches(2) p still_open_def)
    next
      case lq
      then have "revalue_te prices pos =
                   (True, pos\<lparr>unrealizedPnL := Fin (- n), liquidated := True\<rparr>)"
        using revalue_te_branches(3) [of prices pos] liq n by simp
      then show ?thesis
        using assms(1) by (simp add: still_open_def)
    next
      case op
      then have "revalue_te prices pos = (False, pos\<lparr>unrealizedPnL := Fin pnl'\<rparr>)"
        using revalue_te_branches(4) [of prices pos] liq p by simp
      then show ?thesis
        using assms(1) op(3) by (simp add: still_open_def)
    qed
  qed
  show ?thesis
    using A B by blast
qed

theorem C2_liquidation_clamp_witness:
  "still_open sample_position
   \<and> riskAmount sample_position = Some (Fin 50)
   \<and> toNumber (btc_at 70000 (market sample_position)) = Fin 70000
   \<and> revalue (btc_at 70000) sample_position =
       (True, sample_position\<lparr>unrealizedPnL := Fin (- 50), liquidated := True\<rparr>)
   \<and> unrealizedPnL (snd (revalue (btc_at 94000) sample_position)) = Fin (- (50 / 19))
   \<and> unrealizedPnL (snd (revalue (btc_at 65000) sample_position_tpsl)) = Fin (- (1500 / 19))
   \<and> still_open sample_position_te
   \<and> liquidated (snd (revalue_te (btc_at 93000) sample_position_te))
   \<and> unrealizedPnL (snd (revalue_te (btc_at 93000) sample_position_te)) = Fin (- 50)"
proof -
  have nt: "\<not> tpFires (btc_at c) sample_position" and ns: "\<not> slFires (btc_at c) sample_position" for c
    by (simp_all add: tpFires_def slFires_def sample_position_fields)
  have fl: "\<not> closedByTP (snd (revalue (btc_at c) sample_position))"
           "\<not> closedBySL (snd (revalue (btc_at c) sample_position))" for c
    using revalue_flags(1,2) [OF sample_position_open, of "btc_at c"] nt ns by simp_all
  have a: "revalue (btc_at 70000) sample_position =
       (True, sample_position\<lparr>unrealizedPnL := Fin (- 50), liquidated := True\<rparr>)"
    using C2_liquidation_clamp [where pos = sample_position and r = 50 and e = 95000
        and n = 250 and prices = "btc_at 70000" and c = 70000 and m = 1
        and pnl = "- (1250 / 19)"]
      fl [of 70000]
    by (simp add: sample_position_open sample_position_price sample_position_fields)
  have "\<not> jle (tick_pnl (btc_at 94000) sample_position) (jneg (riskOf sample_position))"
    by (simp add: tick_pnl_def riskOf_def sample_position_fields sample_position_price)
  then have so: "still_open (snd (revalue (btc_at 94000) sample_position))"
    using revalue_flags [OF sample_position_open, of "btc_at 94000"] nt ns
    by (simp add: still_open_def)
  have b: "unrealizedPnL (snd (revalue (btc_at 94000) sample_position)) = Fin (- (50 / 19))"
    using C2_liquidation_clamp [where pos = sample_position and r = 50 and e = 95000
        and n = 250 and prices = "btc_at 94000" and c = 94000 and m = 1
        and pnl = "- (50 / 19)"]
      so
    by (simp add: sample_position_open sample_position_price sample_position_fields)
  have "slFires (btc_at 65000) sample_position_tpsl" and "\<not> tpFires (btc_at 65000) sample_position_tpsl"
    using slFires_Fin [of "btc_at 65000" sample_position_tpsl 65000 90000]
      tpFires_Fin [of "btc_at 65000" sample_position_tpsl 65000 70000]
    by (simp_all add: sample_tpsl_price sample_tpsl_sl sample_tpsl_tp sample_tpsl_dir)
  then have sl: "closedBySL (snd (revalue (btc_at 65000) sample_position_tpsl))"
    using revalue_flags(2) [OF sample_tpsl_open, of "btc_at 65000"] by simp
  have c: "unrealizedPnL (snd (revalue (btc_at 65000) sample_position_tpsl)) = Fin (- (1500 / 19))"
    using C2_liquidation_clamp [where pos = sample_position_tpsl and r = 50 and e = 95000
        and n = 250 and prices = "btc_at 65000" and c = 65000 and m = 1
        and pnl = "- (1500 / 19)"]
      sl
    by (simp add: sample_tpsl_open sample_tpsl_price sample_tpsl_fields sample_tpsl_dir)
  have d: "unrealizedPnL (snd (revalue_te (btc_at 93000) sample_position_te)) = Fin (- 50)"
    using C2_liquidation_clamp [where pos = sample_position_te and e = 95000
        and n = 50 and prices = "btc_at 93000" and c = 93000 and m = 1
        and L = 5 and im = 10 and mm = 5 and pnl' = "- (100 / 19)"]
      sample_te_liquidated
    by (simp add: sample_te_fields)
  show ?thesis
    using a b c d sample_te_liquidated
    by (simp add: sample_position_open sample_position_price sample_position_fields
          sample_te_fields)
qed

section \<open>C3: take-profit, then stop-loss, then liquidation\<close>

text \<open>
  C3. In the per-tick evaluation of one position of the open set, at a finite current
  price \<open>c\<close>, the checks run in the order take-profit, stop-loss, liquidation, and the
  first that fires decides the outcome:
  \<^item> when the take-profit price is set (a nonzero number \<open>tp\<close>) and the price has reached
    it (LONG and \<open>c \<ge> tp\<close>, SHORT and \<open>c \<le> tp\<close>), the position is closed by TP with the
    recomputed PnL, whatever the stop-loss and the liquidation test say;
  \<^item> when TP did not fire and the stop-loss price is set and reached, it is closed by SL;
  \<^item> when neither fired and the PnL is at most minus the risk amount, it is liquidated;
  \<^item> a position closed by SL was not closed by TP, and a liquidated one by neither.
\<close>

theorem C3_trigger_order:
  assumes "still_open pos" and "toNumber (prices (market pos)) = Fin c"
  shows "(takeProfit pos = Some (Fin tp) \<and> tp \<noteq> 0 \<and>
            (if pos_direction pos = LONG then tp \<le> c else c \<le> tp) \<longrightarrow>
          revalue prices pos =
            (True, pos\<lparr>unrealizedPnL := tick_pnl prices pos, closedByTP := True\<rparr>))
       \<and> (\<not> closedByTP (snd (revalue prices pos)) \<and> stopLoss pos = Some (Fin sl) \<and> sl \<noteq> 0 \<and>
            (if pos_direction pos = LONG then c \<le> sl else sl \<le> c) \<longrightarrow>
          revalue prices pos =
            (True, pos\<lparr>unrealizedPnL := tick_pnl prices pos, closedBySL := True\<rparr>))
       \<and> (\<not> closedByTP (snd (revalue prices pos)) \<and> \<not> closedBySL (snd (revalue prices pos)) \<and>
            jle (tick_pnl prices pos) (jneg (riskOf pos)) \<longrightarrow>
          revalue prices pos =
            (True, pos\<lparr>unrealizedPnL := jneg (riskOf pos), liquidated := True\<rparr>))
       \<and> (closedBySL (snd (revalue prices pos)) \<longrightarrow> \<not> closedByTP (snd (revalue prices pos)))
       \<and> (liquidated (snd (revalue prices pos)) \<longrightarrow>
            \<not> closedByTP (snd (revalue prices pos)) \<and> \<not> closedBySL (snd (revalue prices pos)))"
proof (intro conjI impI)
  assume "takeProfit pos = Some (Fin tp) \<and> tp \<noteq> 0 \<and>
            (if pos_direction pos = LONG then tp \<le> c else c \<le> tp)"
  then have "tpFires prices pos"
    using assms(2) tpFires_Fin [of prices pos c tp] by simp
  then show "revalue prices pos =
            (True, pos\<lparr>unrealizedPnL := tick_pnl prices pos, closedByTP := True\<rparr>)"
    by (rule revalue_tp)
next
  assume a: "\<not> closedByTP (snd (revalue prices pos)) \<and> stopLoss pos = Some (Fin sl) \<and> sl \<noteq> 0 \<and>
            (if pos_direction pos = LONG then c \<le> sl else sl \<le> c)"
  then have "\<not> tpFires prices pos"
    using revalue_flags(1) [OF assms(1)] by simp
  moreover have "slFires prices pos"
    using a assms(2) slFires_Fin [of prices pos c sl] by simp
  ultimately show "revalue prices pos =
            (True, pos\<lparr>unrealizedPnL := tick_pnl prices pos, closedBySL := True\<rparr>)"
    by (rule revalue_sl)
next
  assume a: "\<not> closedByTP (snd (revalue prices pos)) \<and> \<not> closedBySL (snd (revalue prices pos)) \<and>
            jle (tick_pnl prices pos) (jneg (riskOf pos))"
  then have "\<not> tpFires prices pos" and "\<not> slFires prices pos"
    using revalue_flags(1,2) [OF assms(1), of prices] by blast+
  then show "revalue prices pos =
            (True, pos\<lparr>unrealizedPnL := jneg (riskOf pos), liquidated := True\<rparr>)"
    using a by (simp add: revalue_liq)
next
  assume "closedBySL (snd (revalue prices pos))"
  then show "\<not> closedByTP (snd (revalue prices pos))"
    using revalue_flags(1,2) [OF assms(1)] by simp
next
  assume "liquidated (snd (revalue prices pos))"
  then show "\<not> closedByTP (snd (revalue prices pos))"
    using revalue_flags(1,3) [OF assms(1)] by simp
next
  assume "liquidated (snd (revalue prices pos))"
  then show "\<not> closedBySL (snd (revalue prices pos))"
    using revalue_flags(2,3) [OF assms(1)] by simp
qed

theorem C3_trigger_order_witness:
  "still_open sample_position_tpsl
   \<and> toNumber (btc_at 75000 (market sample_position_tpsl)) = Fin 75000
   \<and> slFires (btc_at 75000) sample_position_tpsl
   \<and> jle (tick_pnl (btc_at 75000) sample_position_tpsl) (jneg (riskOf sample_position_tpsl))
   \<and> revalue (btc_at 75000) sample_position_tpsl =
       (True, sample_position_tpsl\<lparr>unrealizedPnL := Fin (- (1000 / 19)), closedByTP := True\<rparr>)
   \<and> revalue (btc_at 65000) sample_position_tpsl =
       (True, sample_position_tpsl\<lparr>unrealizedPnL := Fin (- (1500 / 19)), closedBySL := True\<rparr>)"
proof -
  have tp: "revalue (btc_at 75000) sample_position_tpsl =
       (True, sample_position_tpsl\<lparr>unrealizedPnL := tick_pnl (btc_at 75000) sample_position_tpsl, closedByTP := True\<rparr>)"
    using C3_trigger_order [of sample_position_tpsl "btc_at 75000" 75000 70000 90000]
    by (simp add: sample_tpsl_open sample_tpsl_price sample_tpsl_tp sample_tpsl_dir)
  have notp: "\<not> closedByTP (snd (revalue (btc_at 65000) sample_position_tpsl))"
    using revalue_flags(1) [OF sample_tpsl_open, of "btc_at 65000"]
      tpFires_Fin [of "btc_at 65000" sample_position_tpsl 65000 70000]
    by (simp add: sample_tpsl_dir sample_tpsl_price sample_tpsl_tp)
  have sl: "revalue (btc_at 65000) sample_position_tpsl =
       (True, sample_position_tpsl\<lparr>unrealizedPnL := tick_pnl (btc_at 65000) sample_position_tpsl, closedBySL := True\<rparr>)"
    using C3_trigger_order [of sample_position_tpsl "btc_at 65000" 65000 70000 90000] notp
    by (simp add: sample_tpsl_open sample_tpsl_price sample_tpsl_sl sample_tpsl_dir)
  have slf: "slFires (btc_at 75000) sample_position_tpsl"
    using slFires_Fin [of "btc_at 75000" sample_position_tpsl 75000 90000]
    by (simp add: sample_tpsl_dir sample_tpsl_price sample_tpsl_sl)
  show ?thesis
    using tp sl slf sample_tpsl_open
    by (simp add: sample_tpsl_price sample_tpsl_pnl sample_tpsl_risk)
qed

section \<open>C4: the PnL formula\<close>

text \<open>A position as \<open>openPosition\<close> created it, whatever its \<open>unrealizedPnL\<close> has become.\<close>

lemma opened_tick:
  assumes "positionSize st = Fin r" and "e \<noteq> 0"
      and "p = newPosition pf now nowText st (Fin e) (Fin L)"
      and "toNumber (prices (selectedMarket st)) = Fin c"
      and "F = (c - e) / e * (r * L) * (if direction st = LONG then 1 else - 1)"
      and "truthy_opt (prices BTC)"
  shows "riskAmount p = Some (Fin r) \<and> leverage p = Fin L \<and> pos_size p = Fin (r * L) \<and>
         tick_pnl prices (p\<lparr>unrealizedPnL := u\<rparr>) = Fin F \<and>
         unrealizedPnL (snd (revalue prices (p\<lparr>unrealizedPnL := u\<rparr>))) =
           (if liquidated (snd (revalue prices (p\<lparr>unrealizedPnL := u\<rparr>)))
            then Fin (- r) else Fin F) \<and>
         (p\<lparr>unrealizedPnL := u\<rparr> \<in> set (positions s) \<and>
          \<not> fst (revalue prices (p\<lparr>unrealizedPnL := u\<rparr>)) \<longrightarrow>
            p\<lparr>unrealizedPnL := Fin F\<rparr> \<in> set (positions (updatePositions prices s)) \<and>
            p\<lparr>unrealizedPnL := Fin F\<rparr> \<in> set (positions (updatePositions_mtc prices s)))"
proof -
  let ?q = "p\<lparr>unrealizedPnL := u\<rparr>"
  have f: "riskAmount p = Some (Fin r)" "leverage p = Fin L" "pos_size p = Fin (r * L)"
    using assms(1,3) by simp_all
  have t: "tick_pnl prices ?q = Fin F"
    using tick_pnl_Fin [of ?q e "r * L" prices c] assms(1-5) by simp
  have l: "\<not> liquidated ?q"
    by (simp add: assms(3) newPosition_def Let_def)
  have "riskOf ?q = Fin r"
    using assms(1,3) by (simp add: riskOf_def)
  then have v: "unrealizedPnL (snd (revalue prices ?q)) =
           (if liquidated (snd (revalue prices ?q)) then Fin (- r) else Fin F)"
    using revalue_stores [OF t l] by simp
  have so: "still_open ?q"
    using newPosition_fields(12) [of pf now nowText st "Fin e" "Fin L"]
    by (simp add: assms(3) still_open_def)
  have u: "?q\<lparr>unrealizedPnL := tick_pnl prices ?q\<rparr> = p\<lparr>unrealizedPnL := Fin F\<rparr>"
    by (simp add: t)
  have k: "p\<lparr>unrealizedPnL := Fin F\<rparr> \<in> set (positions (updatePositions prices s)) \<and>
           p\<lparr>unrealizedPnL := Fin F\<rparr> \<in> set (positions (updatePositions_mtc prices s))"
    if "?q \<in> set (positions s) \<and> \<not> fst (revalue prices ?q)"
    using updatePositions_keeps [of ?q s prices, OF _ assms(6) _ so] that
    by (simp only: u) blast
  show ?thesis
    using f t v k by blast
qed

lemma opened_tick_te:
  assumes "positionSize st = Fin r" and "e \<noteq> 0"
      and "p = newPosition_te pf now nowText st (Fin e) (Fin L)"
      and "toNumber (prices (selectedMarket st)) = Fin c"
      and "F = (c - e) / e * (r * L) * (if direction st = LONG then 1 else - 1)"
      and "truthy_opt (prices BTC)"
  shows "leverage p = Fin L \<and> pos_size p = Fin r \<and>
         tick_pnl_te prices (p\<lparr>unrealizedPnL := u\<rparr>) = Fin F \<and>
         unrealizedPnL (snd (revalue_te prices (p\<lparr>unrealizedPnL := u\<rparr>))) =
           (if liquidated (snd (revalue_te prices (p\<lparr>unrealizedPnL := u\<rparr>)))
            then Fin (- r) else Fin F) \<and>
         (p\<lparr>unrealizedPnL := u\<rparr> \<in> set (positions s) \<and>
          \<not> fst (revalue_te prices (p\<lparr>unrealizedPnL := u\<rparr>)) \<longrightarrow>
            p\<lparr>unrealizedPnL := Fin F\<rparr> \<in> set (positions (updatePositions_te prices s)))"
proof -
  let ?q = "p\<lparr>unrealizedPnL := u\<rparr>"
  have f: "leverage p = Fin L" "pos_size p = Fin r"
    using assms(1,3) by simp_all
  have t: "tick_pnl_te prices ?q = Fin F"
    using tick_pnl_te_Fin [of ?q e r L prices c] assms(1-5) by simp
  have l: "\<not> liquidated ?q"
    by (simp add: assms(3) newPosition_te_def Let_def)
  have v: "unrealizedPnL (snd (revalue_te prices ?q)) =
           (if liquidated (snd (revalue_te prices ?q)) then Fin (- r) else Fin F)"
    using revalue_te_stores [OF t l] f by simp
  have so: "still_open ?q"
    using newPosition_te_fields(11) [of pf now nowText st "Fin e" "Fin L"]
    by (simp add: assms(3) still_open_def)
  have u: "?q\<lparr>unrealizedPnL := tick_pnl_te prices ?q\<rparr> = p\<lparr>unrealizedPnL := Fin F\<rparr>"
    by (simp add: t)
  have k: "p\<lparr>unrealizedPnL := Fin F\<rparr> \<in> set (positions (updatePositions_te prices s))"
    if "?q \<in> set (positions s) \<and> \<not> fst (revalue_te prices ?q)"
    using updatePositions_te_keeps [of ?q s prices, OF _ assms(6) _ so] that
    by (simp only: u) blast
  show ?thesis
    using f t v k by blast
qed

text \<open>
  C4. A position opened with position size (risk amount) \<open>r\<close> and leverage \<open>L\<close> at a
  finite nonzero entry price \<open>e\<close> is revalued at every later tick with a finite current
  price \<open>c\<close>, whatever its \<open>unrealizedPnL\<close> \<open>u\<close> has become: the recomputed PnL is
  \<open>F = ((c - e) / e) * (r * L) * m\<close>, where \<open>m\<close> is \<open>+1\<close> for LONG and \<open>-1\<close> for SHORT.
  The callback of the tick stores \<open>F\<close> as the \<open>unrealizedPnL\<close> of the position, except
  when it liquidates the position (then it stores \<open>-r\<close>), and when the tick does not close
  the position, the open set after the tick holds it with \<open>unrealizedPnL = F\<close>.
  In \<open>useAppState\<close> (both versions) the position stores the notional \<open>r * L\<close> as its
  size and the tick multiplies by the size once; in \<open>useTradingEngine\<close> it stores \<open>r\<close> as
  its size and the tick multiplies by size and leverage.
\<close>

theorem C4_pnl_formula:
  assumes "positionSize st = Fin r" and "entryOf pf prices0 st = Fin e" and "e \<noteq> 0"
      and "toNumber (prices (selectedMarket st)) = Fin c"
      and "F = (c - e) / e * (r * L) * (if direction st = LONG then 1 else - 1)"
      and "truthy_opt (prices BTC)"
  shows "(resolveLeverage pf st = Fin L \<and> openPosition pf now nowText prices0 st = Inr st' \<longrightarrow>
            (\<exists>p. positions st' = positions st @ [p] \<and>
                 riskAmount p = Some (Fin r) \<and> leverage p = Fin L \<and> pos_size p = Fin (r * L) \<and>
                 tick_pnl prices (p\<lparr>unrealizedPnL := u\<rparr>) = Fin F \<and>
                 unrealizedPnL (snd (revalue prices (p\<lparr>unrealizedPnL := u\<rparr>))) =
                   (if liquidated (snd (revalue prices (p\<lparr>unrealizedPnL := u\<rparr>)))
                    then Fin (- r) else Fin F) \<and>
                 (p\<lparr>unrealizedPnL := u\<rparr> \<in> set (positions s) \<and>
                  \<not> fst (revalue prices (p\<lparr>unrealizedPnL := u\<rparr>)) \<longrightarrow>
                    p\<lparr>unrealizedPnL := Fin F\<rparr> \<in> set (positions (updatePositions prices s)))))
       \<and> (resolveLeverage_mtc pf st = Fin L \<and> openPosition_mtc pf now nowText prices0 st = Inr st' \<longrightarrow>
            (\<exists>p. positions st' = positions st @ [p] \<and>
                 riskAmount p = Some (Fin r) \<and> leverage p = Fin L \<and> pos_size p = Fin (r * L) \<and>
                 tick_pnl prices (p\<lparr>unrealizedPnL := u\<rparr>) = Fin F \<and>
                 unrealizedPnL (snd (revalue prices (p\<lparr>unrealizedPnL := u\<rparr>))) =
                   (if liquidated (snd (revalue prices (p\<lparr>unrealizedPnL := u\<rparr>)))
                    then Fin (- r) else Fin F) \<and>
                 (p\<lparr>unrealizedPnL := u\<rparr> \<in> set (positions s) \<and>
                  \<not> fst (revalue prices (p\<lparr>unrealizedPnL := u\<rparr>)) \<longrightarrow>
                    p\<lparr>unrealizedPnL := Fin F\<rparr> \<in> set (positions (updatePositions_mtc prices s)))))
       \<and> (resolveLeverage pf st = Fin L \<and> openPosition_te pf now nowText prices0 st = Inr st' \<longrightarrow>
            (\<exists>p. positions st' = positions st @ [p] \<and>
                 leverage p = Fin L \<and> pos_size p = Fin r \<and>
                 tick_pnl_te prices (p\<lparr>unrealizedPnL := u\<rparr>) = Fin F \<and>
                 unrealizedPnL (snd (revalue_te prices (p\<lparr>unrealizedPnL := u\<rparr>))) =
                   (if liquidated (snd (revalue_te prices (p\<lparr>unrealizedPnL := u\<rparr>)))
                    then Fin (- r) else Fin F) \<and>
                 (p\<lparr>unrealizedPnL := u\<rparr> \<in> set (positions s) \<and>
                  \<not> fst (revalue_te prices (p\<lparr>unrealizedPnL := u\<rparr>)) \<longrightarrow>
                    p\<lparr>unrealizedPnL := Fin F\<rparr> \<in> set (positions (updatePositions_te prices s)))))"
proof (intro conjI impI)
  assume a: "resolveLeverage pf st = Fin L \<and> openPosition pf now nowText prices0 st = Inr st'"
  let ?p = "newPosition pf now nowText st (Fin e) (Fin L)"
  note f = opened_tick [where prices = prices and s = s and u = u, OF assms(1,3) refl assms(4,5,6)]
  have "positions st' = positions st @ [?p]"
    using a assms(2) by (simp add: openPosition_Inr)
  then show "\<exists>p. positions st' = positions st @ [p] \<and>
                 riskAmount p = Some (Fin r) \<and> leverage p = Fin L \<and> pos_size p = Fin (r * L) \<and>
                 tick_pnl prices (p\<lparr>unrealizedPnL := u\<rparr>) = Fin F \<and>
                 unrealizedPnL (snd (revalue prices (p\<lparr>unrealizedPnL := u\<rparr>))) =
                   (if liquidated (snd (revalue prices (p\<lparr>unrealizedPnL := u\<rparr>)))
                    then Fin (- r) else Fin F) \<and>
                 (p\<lparr>unrealizedPnL := u\<rparr> \<in> set (positions s) \<and>
                  \<not> fst (revalue prices (p\<lparr>unrealizedPnL := u\<rparr>)) \<longrightarrow>
                    p\<lparr>unrealizedPnL := Fin F\<rparr> \<in> set (positions (updatePositions prices s)))"
    using f by (intro exI [of _ ?p]) blast
next
  assume a: "resolveLeverage_mtc pf st = Fin L \<and> openPosition_mtc pf now nowText prices0 st = Inr st'"
  let ?p = "newPosition pf now nowText st (Fin e) (Fin L)"
  note f = opened_tick [where prices = prices and s = s and u = u, OF assms(1,3) refl assms(4,5,6)]
  have "positions st' = positions st @ [?p]"
    using a assms(2) by (simp add: openPosition_mtc_Inr)
  then show "\<exists>p. positions st' = positions st @ [p] \<and>
                 riskAmount p = Some (Fin r) \<and> leverage p = Fin L \<and> pos_size p = Fin (r * L) \<and>
                 tick_pnl prices (p\<lparr>unrealizedPnL := u\<rparr>) = Fin F \<and>
                 unrealizedPnL (snd (revalue prices (p\<lparr>unrealizedPnL := u\<rparr>))) =
                   (if liquidated (snd (revalue prices (p\<lparr>unrealizedPnL := u\<rparr>)))
                    then Fin (- r) else Fin F) \<and>
                 (p\<lparr>unrealizedPnL := u\<rparr> \<in> set (positions s) \<and>
                  \<not> fst (revalue prices (p\<lparr>unrealizedPnL := u\<rparr>)) \<longrightarrow>
                    p\<lparr>unrealizedPnL := Fin F\<rparr> \<in> set (positions (updatePositions_mtc prices s)))"
    using f by (intro exI [of _ ?p]) blast
next
  assume a: "resolveLeverage pf st = Fin L \<and> openPosition_te pf now nowText prices0 st = Inr st'"
  let ?p = "newPosition_te pf now nowText st (Fin e) (Fin L)"
  note g = opened_tick_te [where prices = prices and s = s and u = u, OF assms(1,3) refl assms(4,5,6)]
  have "positions st' = positions st @ [?p]"
    using a assms(2) by (simp add: openPosition_te_Inr)
  then show "\<exists>p. positions st' = positions st @ [p] \<and>
                 leverage p = Fin L \<and> pos_size p = Fin r \<and>
                 tick_pnl_te prices (p\<lparr>unrealizedPnL := u\<rparr>) = Fin F \<and>
                 unrealizedPnL (snd (revalue_te prices (p\<lparr>unrealizedPnL := u\<rparr>))) =
                   (if liquidated (snd (revalue_te prices (p\<lparr>unrealizedPnL := u\<rparr>)))
                    then Fin (- r) else Fin F) \<and>
                 (p\<lparr>unrealizedPnL := u\<rparr> \<in> set (positions s) \<and>
                  \<not> fst (revalue_te prices (p\<lparr>unrealizedPnL := u\<rparr>)) \<longrightarrow>
                    p\<lparr>unrealizedPnL := Fin F\<rparr> \<in> set (positions (updatePositions_te prices s)))"
    using g by (intro exI [of _ ?p]) blast
qed

theorem C4_pnl_formula_witness:
  "positionSize sample_state = Fin 50
   \<and> entryOf parseFloat_sample sample_prices sample_state = Fin 95000
   \<and> toNumber (btc_at 94000 (selectedMarket sample_state)) = Fin 94000
   \<and> truthy_opt (btc_at 94000 BTC)
   \<and> resolveLeverage parseFloat_sample sample_state = Fin 5
   \<and> resolveLeverage_mtc parseFloat_sample sample_state = Fin 5
   \<and> openPosition parseFloat_sample 1 ''10:00:00'' sample_prices sample_state = Inr sample_opened
   \<and> openPosition_mtc parseFloat_sample 1 ''10:00:00'' sample_prices sample_state = Inr sample_opened_mtc
   \<and> openPosition_te parseFloat_sample 1 ''10:00:00'' sample_prices sample_state = Inr sample_opened_te
   \<and> positions sample_opened = [sample_position]
   \<and> positions sample_opened_mtc = [sample_position]
   \<and> positions sample_opened_te = [sample_position_te]
   \<and> \<not> fst (revalue (btc_at 94000) sample_position)
   \<and> \<not> fst (revalue_te (btc_at 94000) sample_position_te)
   \<and> tick_pnl (btc_at 94000) sample_position = Fin (- (50 / 19))
   \<and> tick_pnl_te (btc_at 94000) sample_position_te = Fin (- (50 / 19))
   \<and> unrealizedPnL (snd (revalue (btc_at 94000) sample_position)) = Fin (- (50 / 19))
   \<and> unrealizedPnL (snd (revalue_te (btc_at 94000) sample_position_te)) = Fin (- (50 / 19))
   \<and> sample_position\<lparr>unrealizedPnL := Fin (- (50 / 19))\<rparr>
        \<in> set (positions (updatePositions (btc_at 94000) sample_opened))
   \<and> sample_position\<lparr>unrealizedPnL := Fin (- (50 / 19))\<rparr>
        \<in> set (positions (updatePositions_mtc (btc_at 94000) sample_opened_mtc))
   \<and> sample_position_te\<lparr>unrealizedPnL := Fin (- (50 / 19))\<rparr>
        \<in> set (positions (updatePositions_te (btc_at 94000) sample_opened_te))"
proof -
  have c: "toNumber (btc_at 94000 (selectedMarket sample_state)) = Fin 94000"
          "toNumber (btc_at 94000 BTC) = Fin 94000"
    by (simp_all add: btc_at_def sample_state_fields)
  have u: "sample_position\<lparr>unrealizedPnL := Fin 0\<rparr> = sample_position"
          "sample_position_te\<lparr>unrealizedPnL := Fin 0\<rparr> = sample_position_te"
    by (simp_all add: sample_position_def sample_position_te_def)
  have F: "(94000 - 95000) / 95000 * (50 * 5) * (if direction sample_state = LONG then 1 else - 1)
             = (- (50 / 19) :: real)"
    by (simp add: sample_state_fields)
  have "tick_pnl (btc_at 94000) sample_position = Fin (- (50 / 19))
      \<and> unrealizedPnL (snd (revalue (btc_at 94000) sample_position)) = Fin (- (50 / 19))
      \<and> sample_position\<lparr>unrealizedPnL := Fin (- (50 / 19))\<rparr>
          \<in> set (positions (updatePositions (btc_at 94000) sample_opened))"
    using C4_pnl_formula [where st = sample_state and r = 50 and pf = parseFloat_sample
        and ?prices0.0 = sample_prices and e = 95000 and prices = "btc_at 94000" and c = 94000
        and F = "- (50 / 19)" and L = 5 and now = 1 and nowText = "''10:00:00''"
        and st' = sample_opened and u = "Fin 0" and s = sample_opened]
    by (simp add: c F u sample_state_fields sample_open sample_opened_positions
          sample_tick_94000 del: One_nat_def)
  moreover have "sample_position\<lparr>unrealizedPnL := Fin (- (50 / 19))\<rparr>
          \<in> set (positions (updatePositions_mtc (btc_at 94000) sample_opened_mtc))"
    using C4_pnl_formula [where st = sample_state and r = 50 and pf = parseFloat_sample
        and ?prices0.0 = sample_prices and e = 95000 and prices = "btc_at 94000" and c = 94000
        and F = "- (50 / 19)" and L = 5 and now = 1 and nowText = "''10:00:00''"
        and st' = sample_opened_mtc and u = "Fin 0" and s = sample_opened_mtc]
    by (simp add: c F u sample_state_fields sample_open_mtc sample_opened_positions
          sample_tick_94000 del: One_nat_def)
  moreover have "tick_pnl_te (btc_at 94000) sample_position_te = Fin (- (50 / 19))
      \<and> unrealizedPnL (snd (revalue_te (btc_at 94000) sample_position_te)) = Fin (- (50 / 19))
      \<and> sample_position_te\<lparr>unrealizedPnL := Fin (- (50 / 19))\<rparr>
          \<in> set (positions (updatePositions_te (btc_at 94000) sample_opened_te))"
    using C4_pnl_formula [where st = sample_state and r = 50 and pf = parseFloat_sample
        and ?prices0.0 = sample_prices and e = 95000 and prices = "btc_at 94000" and c = 94000
        and F = "- (50 / 19)" and L = 5 and now = 1 and nowText = "''10:00:00''"
        and st' = sample_opened_te and u = "Fin 0" and s = sample_opened_te]
    by (simp add: c F u sample_state_fields sample_open_te sample_opened_positions
          sample_tick_94000 del: One_nat_def)
  ultimately show ?thesis
    by (simp add: c sample_state_fields sample_open sample_open_mtc sample_open_te
          sample_opened_positions sample_tick_94000 del: One_nat_def)
qed

section \<open>C5: the balance check of openPosition\<close>

text \<open>
  C5. The margin-reserved \<open>openPosition\<close> tests the balance against
  \<open>positionSize / leverage\<close> and then deducts the whole \<open>positionSize\<close>. With a balance
  of 20, a position size of 50 and leverage 5 the test passes (\<open>20 \<ge> 10\<close>), the position
  is opened and the balance becomes \<open>-30\<close>.
\<close>

theorem C5_open_overdraws:
  "openPosition parseFloat_sample 1 ''10:00:00'' sample_prices (sample_state\<lparr>balance := Fin 20\<rparr>) =
     Inr (sample_state\<lparr>balance := Fin (- 30), positions := [sample_position]\<rparr>)"
  by (simp add: openPosition_def resolveLeverage_def entryOf_def newPosition_def parseTrigger_def
        Let_def sample_state_def sample_settings_def sample_prices_def sample_position_def)

section \<open>C6: the balance over the life of a position\<close>










section \<open>C7: closing all positions\<close>










section \<open>C8: closing an id that is not open\<close>

text \<open>
  C8. \<open>closePosition\<close> with an id that no open position has returns the state as it is
  (same balance, same positions), and no error is raised on that path. Calling it twice
  with the same id gives the state of the first call.
\<close>

theorem C8_close_absent:
  "(positionId \<notin> pos_id ` set (positions st) \<longrightarrow> closePosition positionId st = st)
   \<and> closePosition positionId (closePosition positionId st) = closePosition positionId st"
proof -
  have "positionId \<notin> pos_id ` set (positions (closePosition positionId st))"
    by (simp add: closePosition_ids)
  then show ?thesis
    by (simp add: closePosition_absent)
qed

theorem C8_close_absent_witness:
  "7 \<notin> pos_id ` set (positions sample_opened)
   \<and> closePosition 7 sample_opened = sample_opened
   \<and> closePosition 1 sample_opened = sample_opened\<lparr>balance := Fin 1000, positions := []\<rparr>
   \<and> closePosition 1 (closePosition 1 sample_opened) =
       sample_opened\<lparr>balance := Fin 1000, positions := []\<rparr>"
proof -
  have n: "7 \<notin> pos_id ` set (positions sample_opened)"
    by (simp add: sample_opened_def sample_position_def)
  have a: "closePosition 7 sample_opened = sample_opened"
    using C8_close_absent [of 7 sample_opened] n by simp
  have b: "closePosition 1 (closePosition 1 sample_opened) = closePosition 1 sample_opened"
    using C8_close_absent [of 1 sample_opened] by simp
  show ?thesis
    using n a b by (simp add: sample_opened_close del: One_nat_def)
qed

section \<open>C9: the margin that the balance check uses\<close>

text \<open>
  C9. Let the position size be \<open>r > 0\<close>, the leverage \<open>L > 1\<close> and a price be available.
  \<open>openPosition\<close> rejects with insufficient balance exactly when the balance \<open>b\<close> is below
  \<open>r / L\<close>. Balances with \<open>r / L \<le> b < r\<close> exist, and for each of them \<open>openPosition\<close>
  succeeds and leaves the balance \<open>b - r\<close>, which is negative.
\<close>

theorem C9_margin_check:
  assumes "1 < L" and "0 < r" and "positionSize st = Fin r" and "resolveLeverage pf st = Fin L"
      and "truthy_opt (prices (selectedMarket st))"
  shows "(openPosition pf now nowText prices (st\<lparr>balance := Fin b\<rparr>) = Inl InsufficientBalance
            \<longleftrightarrow> b < r / L)
       \<and> (\<exists>b'. r / L \<le> b' \<and> b' < r)
       \<and> (r / L \<le> b \<and> b < r \<longrightarrow>
            (\<exists>st'. openPosition pf now nowText prices (st\<lparr>balance := Fin b\<rparr>) = Inr st' \<and>
                   balance st' = Fin (b - r) \<and> b - r < 0))"
proof -
  have "resolveLeverage pf (st\<lparr>balance := Fin b\<rparr>) = resolveLeverage pf st"
    by (simp add: resolveLeverage_def)
  then have l: "resolveLeverage pf (st\<lparr>balance := Fin b\<rparr>) = Fin L"
    using assms(4) by simp
  have m: "jdiv (positionSize st) (Fin L) = Fin (r / L)"
    using assms(1,3) by simp
  have "r / L < r"
    using assms(1,2) by (simp add: field_simps)
  then have ex: "\<exists>b'. r / L \<le> b' \<and> b' < r"
    by (intro exI [of _ "r / L"]) simp
  have rej: "openPosition pf now nowText prices (st\<lparr>balance := Fin b\<rparr>) = Inl InsufficientBalance
            \<longleftrightarrow> b < r / L"
    using assms(5) l m by (simp add: openPosition_def Let_def)
  have acc: "\<exists>st'. openPosition pf now nowText prices (st\<lparr>balance := Fin b\<rparr>) = Inr st' \<and>
                   balance st' = Fin (b - r) \<and> b - r < 0" if "r / L \<le> b \<and> b < r"
    using that assms(3,5) l m by (simp add: openPosition_Inr)
  show ?thesis
    using rej ex acc by blast
qed

theorem C9_margin_check_witness:
  "(1::real) < 5 \<and> (0::real) < 50
   \<and> positionSize sample_state = Fin 50
   \<and> resolveLeverage parseFloat_sample sample_state = Fin 5
   \<and> truthy_opt (sample_prices (selectedMarket sample_state))
   \<and> (50::real) / 5 \<le> 20 \<and> (20::real) < 50
   \<and> openPosition parseFloat_sample 1 ''10:00:00'' sample_prices (sample_state\<lparr>balance := Fin 9\<rparr>)
       = Inl InsufficientBalance
   \<and> (\<exists>st'. openPosition parseFloat_sample 1 ''10:00:00'' sample_prices
               (sample_state\<lparr>balance := Fin 20\<rparr>) = Inr st' \<and>
             balance st' = Fin (- 30))"
proof -
  have t: "truthy_opt (sample_prices (selectedMarket sample_state))"
    by (simp add: sample_state_fields sample_prices_def)
  have a: "openPosition parseFloat_sample 1 ''10:00:00'' sample_prices (sample_state\<lparr>balance := Fin 9\<rparr>)
       = Inl InsufficientBalance"
    using C9_margin_check [of 5 50 sample_state parseFloat_sample sample_prices 1 "''10:00:00''" 9] t
    by (simp add: sample_state_fields del: One_nat_def)
  have b: "\<exists>st'. openPosition parseFloat_sample 1 ''10:00:00'' sample_prices
               (sample_state\<lparr>balance := Fin 20\<rparr>) = Inr st' \<and>
             balance st' = Fin (- 30)"
    using C9_margin_check [of 5 50 sample_state parseFloat_sample sample_prices 1 "''10:00:00''" 20] t
    by (simp add: sample_state_fields del: One_nat_def)
  show ?thesis
    using a b t by (simp add: sample_state_fields del: One_nat_def)
qed

section \<open>C10: a trigger price of 0 or NaN\<close>

text \<open>
  C10. A take-profit or stop-loss price stored as \<open>0\<close> or as \<open>NaN\<close> is treated as
  absent: for every price snapshot the check does not fire, and the callback closes the
  position exactly when it would with the trigger set to \<open>null\<close>. When both triggers
  are absent, \<open>0\<close> or \<open>NaN\<close>, the per-tick pass closes the position by liquidation
  only. \<open>openPosition\<close> stores what \<open>parseFloat\<close> returns for a non-empty text, so a
  text that parses to \<open>0\<close> or to \<open>NaN\<close> is stored as such.
\<close>

theorem C10_falsy_trigger:
  assumes "still_open pos"
  shows "(takeProfit pos = Some (Fin 0) \<or> takeProfit pos = Some NaN \<longrightarrow>
            \<not> closedByTP (snd (revalue prices pos)) \<and>
            \<not> closedByTP (snd (revalue_te prices pos)) \<and>
            fst (revalue prices pos) = fst (revalue prices (pos\<lparr>takeProfit := None\<rparr>)))
       \<and> (stopLoss pos = Some (Fin 0) \<or> stopLoss pos = Some NaN \<longrightarrow>
            \<not> closedBySL (snd (revalue prices pos)) \<and>
            \<not> closedBySL (snd (revalue_te prices pos)) \<and>
            fst (revalue prices pos) = fst (revalue prices (pos\<lparr>stopLoss := None\<rparr>)))
       \<and> ((takeProfit pos = None \<or> takeProfit pos = Some (Fin 0) \<or> takeProfit pos = Some NaN) \<and>
          (stopLoss pos = None \<or> stopLoss pos = Some (Fin 0) \<or> stopLoss pos = Some NaN) \<and>
          fst (revalue prices pos) \<longrightarrow>
            liquidated (snd (revalue prices pos)))
       \<and> (openPosition pf now nowText prices0 st = Inr st' \<and>
          takeProfitText (advancedSettings st) \<noteq> [] \<and> stopLossText (advancedSettings st) \<noteq> [] \<longrightarrow>
            (\<exists>p. positions st' = positions st @ [p] \<and>
                 takeProfit p = Some (pf (takeProfitText (advancedSettings st))) \<and>
                 stopLoss p = Some (pf (stopLossText (advancedSettings st)))))"
proof (intro conjI impI)
  assume a: "takeProfit pos = Some (Fin 0) \<or> takeProfit pos = Some NaN"
  then have n: "\<not> tpFires prices pos"
    using tpFires_falsy [of pos prices] by blast
  show "\<not> closedByTP (snd (revalue prices pos))"
    using n revalue_flags(1) [OF assms, of prices] by simp
  show "\<not> closedByTP (snd (revalue_te prices pos))"
    using n revalue_te_flags(1) [OF assms, of prices] by simp
  have "\<not> tpFires prices (pos\<lparr>takeProfit := None\<rparr>)"
    by (simp add: tpFires_def)
  moreover have "slFires prices (pos\<lparr>takeProfit := None\<rparr>) = slFires prices pos"
    by (simp add: slFires_def)
  moreover have "tick_pnl prices (pos\<lparr>takeProfit := None\<rparr>) = tick_pnl prices pos"
    by (simp add: tick_pnl_def)
  moreover have "riskOf (pos\<lparr>takeProfit := None\<rparr>) = riskOf pos"
    by (simp add: riskOf_def)
  ultimately show "fst (revalue prices pos) = fst (revalue prices (pos\<lparr>takeProfit := None\<rparr>))"
    using n by (simp add: revalue_def Let_def)
next
  assume a: "stopLoss pos = Some (Fin 0) \<or> stopLoss pos = Some NaN"
  then have n: "\<not> slFires prices pos"
    using slFires_falsy [of pos prices] by blast
  show "\<not> closedBySL (snd (revalue prices pos))"
    using n revalue_flags(2) [OF assms, of prices] by simp
  show "\<not> closedBySL (snd (revalue_te prices pos))"
    using n revalue_te_flags(2) [OF assms, of prices] by simp
  have "\<not> slFires prices (pos\<lparr>stopLoss := None\<rparr>)"
    by (simp add: slFires_def)
  moreover have "tpFires prices (pos\<lparr>stopLoss := None\<rparr>) = tpFires prices pos"
    by (simp add: tpFires_def)
  moreover have "tick_pnl prices (pos\<lparr>stopLoss := None\<rparr>) = tick_pnl prices pos"
    by (simp add: tick_pnl_def)
  moreover have "riskOf (pos\<lparr>stopLoss := None\<rparr>) = riskOf pos"
    by (simp add: riskOf_def)
  ultimately show "fst (revalue prices pos) = fst (revalue prices (pos\<lparr>stopLoss := None\<rparr>))"
    using n by (simp add: revalue_def Let_def)
next
  assume a: "(takeProfit pos = None \<or> takeProfit pos = Some (Fin 0) \<or> takeProfit pos = Some NaN) \<and>
          (stopLoss pos = None \<or> stopLoss pos = Some (Fin 0) \<or> stopLoss pos = Some NaN) \<and>
          fst (revalue prices pos)"
  then have "\<not> tpFires prices pos" and "\<not> slFires prices pos"
    using tpFires_falsy [of pos prices] slFires_falsy [of pos prices] by blast+
  then show "liquidated (snd (revalue prices pos))"
    using a by (simp add: revalue_def Let_def split: if_splits)
next
  assume "openPosition pf now nowText prices0 st = Inr st' \<and>
          takeProfitText (advancedSettings st) \<noteq> [] \<and> stopLossText (advancedSettings st) \<noteq> []"
  then show "\<exists>p. positions st' = positions st @ [p] \<and>
                 takeProfit p = Some (pf (takeProfitText (advancedSettings st))) \<and>
                 stopLoss p = Some (pf (stopLossText (advancedSettings st)))"
    by (simp add: openPosition_Inr parseTrigger_def)
qed

theorem C10_falsy_trigger_witness:
  "still_open sample_position_falsy
   \<and> takeProfit sample_position_falsy = Some (Fin 0)
   \<and> stopLoss sample_position_falsy = Some NaN
   \<and> pos_direction sample_position_falsy = LONG
   \<and> toNumber (btc_at 96000 (market sample_position_falsy)) = Fin 96000
   \<and> \<not> closedByTP (snd (revalue (btc_at 96000) sample_position_falsy))
   \<and> \<not> closedBySL (snd (revalue (btc_at 96000) sample_position_falsy))
   \<and> fst (revalue (btc_at 70000) sample_position_falsy)
   \<and> liquidated (snd (revalue (btc_at 70000) sample_position_falsy))
   \<and> openPosition parseFloat_sample 1 ''10:00:00'' sample_prices sample_state_falsy =
       Inr sample_opened_falsy
   \<and> (\<exists>p. positions sample_opened_falsy = positions sample_state_falsy @ [p] \<and>
          takeProfit p = Some (Fin 0) \<and> stopLoss p = Some NaN)"
proof -
  have t: "takeProfitText (advancedSettings sample_state_falsy) = ''0''"
          "stopLossText (advancedSettings sample_state_falsy) = ''abc''"
    by (simp_all add: sample_state_falsy_def sample_settings_def)
  have a: "\<not> closedByTP (snd (revalue (btc_at 96000) sample_position_falsy))"
          "\<not> closedBySL (snd (revalue (btc_at 96000) sample_position_falsy))"
    using C10_falsy_trigger [of sample_position_falsy "btc_at 96000"]
    by (simp_all add: sample_falsy_fields)
  have b: "liquidated (snd (revalue (btc_at 70000) sample_position_falsy))"
    using C10_falsy_trigger [of sample_position_falsy "btc_at 70000"] sample_falsy_closes
    by (simp add: sample_falsy_fields)
  have c: "\<exists>p. positions sample_opened_falsy = positions sample_state_falsy @ [p] \<and>
          takeProfit p = Some (Fin 0) \<and> stopLoss p = Some NaN"
    using C10_falsy_trigger [of sample_position_falsy "btc_at 70000" parseFloat_sample 1
        "''10:00:00''" sample_prices sample_state_falsy sample_opened_falsy]
      sample_falsy_open
    by (simp add: sample_falsy_fields t parseFloat_sample_def del: One_nat_def)
  show ?thesis
    using a b c sample_falsy_closes sample_falsy_open
    by (simp add: sample_falsy_fields)
qed

end
